theory Spec2Isabelle
  imports Complex_Main
begin

section \<open>Entities of the workout tracker (types/exercise.ts, types/workout.ts)\<close>

text \<open>
  The TypeScript interfaces become records. A field declared with \<open>?\<close> is an
  \<open>option\<close>: \<open>None\<close> is JavaScript's \<open>undefined\<close>. Identifiers are integers,
  timestamps are the ISO strings the server sends. Field names that occur in several
  interfaces carry the interface's initial (\<open>w_id\<close>, \<open>we_id\<close>, \<open>s_id\<close>, \<open>e_id\<close>).
\<close>

datatype ExerciseType = WEIGHT_BASED | TIME_BASED

record Exercise =
  e_id :: int
  e_name :: string
  e_description :: "string option"
  exercise_type :: ExerciseType
  muscle_group :: "string option"
  equipment :: "string option"
  instructions :: "string option"
  is_active :: bool
  e_created_at :: string
  e_updated_at :: string

record ExerciseSet =
  s_id :: int
  workout_exercise_id :: int
  set_number :: int
  reps :: "int option"
  weight :: "rat option"
  duration :: "int option"
  rest_duration :: "int option"
  s_notes :: "string option"
  completed :: bool
  s_created_at :: string
  s_updated_at :: string

record ExerciseSetCreate =
  sc_set_number :: int
  sc_reps :: "int option"
  sc_weight :: "rat option"
  sc_duration :: "int option"
  sc_rest_duration :: "int option"
  sc_notes :: "string option"
  sc_completed :: "bool option"

record ExerciseSetUpdate =
  su_reps :: "int option"
  su_weight :: "rat option"
  su_duration :: "int option"
  su_rest_duration :: "int option"
  su_notes :: "string option"
  su_completed :: "bool option"

record WorkoutExercise =
  we_id :: int
  workout_id :: int
  exercise_id :: int
  exercise :: Exercise
  order_index :: int
  we_notes :: "string option"
  sets :: "ExerciseSet list option"

record WorkoutExerciseCreate =
  wec_exercise_id :: int
  wec_order_index :: int
  wec_notes :: "string option"

record Workout =
  w_id :: int
  user_id :: int
  w_name :: "string option"
  started_at :: string
  completed_at :: "string option"
  w_notes :: "string option"
  template_id :: "int option"
  workout_exercises :: "WorkoutExercise list option"

record WorkoutCreate =
  wc_name :: "string option"
  wc_template_id :: "int option"
  wc_notes :: "string option"

section \<open>Errors thrown by the HTTP layer\<close>

text \<open>
  The handlers inspect a caught value only through \<open>err.response?.data?.detail\<close> and
  \<open>err.message\<close>. The detail of a FastAPI error is a string, an array of objects with
  a \<open>msg\<close> (validation errors) or some other object.
\<close>

record detailItem =
  msg :: "string option"
  message :: "string option"

datatype detail = DetailString string | DetailArray "detailItem list" | DetailObject

record err =
  response_detail :: "detail option"
  err_message :: "string option"

text \<open>JavaScript truthiness of the two values the handlers test.\<close>

definition truthyString :: "string option \<Rightarrow> bool" where
  "truthyString x = (case x of None \<Rightarrow> False | Some s \<Rightarrow> s \<noteq> [])"

definition truthyDetail :: "detail option \<Rightarrow> bool" where
  "truthyDetail x =
     (case x of None \<Rightarrow> False
      | Some (DetailString s) \<Rightarrow> s \<noteq> []
      | Some (DetailArray ds) \<Rightarrow> True
      | Some DetailObject \<Rightarrow> True)"

text \<open>\<open>Array.prototype.join\<close>.\<close>

fun join :: "string \<Rightarrow> string list \<Rightarrow> string" where
  "join sep [] = []"
| "join sep [x] = x"
| "join sep (x # y # ys) = x @ sep @ join sep (y # ys)"

text \<open>\<open>error.msg || error.message\<close>, as \<open>join\<close> prints it (\<open>undefined\<close> prints as the
  empty string).\<close>

definition itemText :: "detailItem \<Rightarrow> string" where
  "itemText i =
     (case msg i of
        Some m \<Rightarrow> if m \<noteq> [] then m else (case message i of None \<Rightarrow> [] | Some m' \<Rightarrow> m')
      | None \<Rightarrow> (case message i of None \<Rightarrow> [] | Some m' \<Rightarrow> m'))"

text \<open>The message \<open>handleError\<close> computes before it calls \<open>setError\<close>.\<close>

definition errorMessage :: "err \<Rightarrow> string \<Rightarrow> string" where
  "errorMessage e defaultMessage =
     (if truthyDetail (response_detail e) then
        (case response_detail e of
           Some (DetailArray ds) \<Rightarrow> join '', '' (map itemText ds)
         | Some (DetailString s) \<Rightarrow> s
         | _ \<Rightarrow> defaultMessage)
      else (case err_message e of
              Some m \<Rightarrow> if m \<noteq> [] then m else defaultMessage
            | None \<Rightarrow> defaultMessage))"

text \<open>\<open>String(v)\<close> for a detail, as \<open>new Error(v)\<close> applies it.\<close>

definition detailToString :: "detail \<Rightarrow> string" where
  "detailToString d =
     (case d of
        DetailString s \<Rightarrow> s
      | DetailArray ds \<Rightarrow> join '','' (map (\<lambda>_. ''[object Object]'') ds)
      | DetailObject \<Rightarrow> ''[object Object]'')"

definition newError :: "string \<Rightarrow> err" where
  "newError m = \<lparr>response_detail = None, err_message = Some m\<rparr>"

section \<open>The workout service (services/workoutService.ts)\<close>

text \<open>
  Every method of \<open>workoutService\<close> is one HTTP request. The server is outside the
  client, so a service is a record of functions giving, for each request, either the
  error the promise rejects with (\<open>Inl\<close>) or the body of the response (\<open>Inr\<close>). The
  requests a client operation sends are logged as values of \<open>call\<close>.
\<close>

record service =
  svc_createWorkout :: "WorkoutCreate \<Rightarrow> err + Workout"
  svc_createWorkoutFromTemplate :: "int \<Rightarrow> WorkoutCreate option \<Rightarrow> err + Workout"
  svc_getActiveWorkout :: "err + Workout option"
  svc_getWorkout :: "int \<Rightarrow> err + Workout"
  svc_completeWorkout :: "int \<Rightarrow> err + Workout"
  svc_cancelWorkout :: "int \<Rightarrow> err + unit"
  svc_updateWorkoutNotes :: "int \<Rightarrow> string \<Rightarrow> err + Workout"
  svc_addExerciseToWorkout :: "int \<Rightarrow> WorkoutExerciseCreate \<Rightarrow> err + WorkoutExercise"
  svc_removeExerciseFromWorkout :: "int \<Rightarrow> int \<Rightarrow> err + unit"
  svc_updateExerciseNotes :: "int \<Rightarrow> int \<Rightarrow> string \<Rightarrow> err + WorkoutExercise"
  svc_addSetToExercise :: "int \<Rightarrow> int \<Rightarrow> ExerciseSetCreate \<Rightarrow> err + ExerciseSet"
  svc_updateExerciseSet :: "int \<Rightarrow> int \<Rightarrow> int \<Rightarrow> ExerciseSetUpdate \<Rightarrow> err + ExerciseSet"
  svc_deleteExerciseSet :: "int \<Rightarrow> int \<Rightarrow> int \<Rightarrow> err + unit"

datatype call =
    CreateWorkout WorkoutCreate
  | CreateWorkoutFromTemplate int "WorkoutCreate option"
  | GetActiveWorkout
  | GetWorkout int
  | CompleteWorkout int
  | CancelWorkout int
  | UpdateWorkoutNotes int string
  | AddExerciseToWorkout int WorkoutExerciseCreate
  | RemoveExerciseFromWorkout int int
  | UpdateExerciseNotes int int string
  | AddSetToExercise int int ExerciseSetCreate
  | UpdateExerciseSet int int int ExerciseSetUpdate
  | DeleteExerciseSet int int int

section \<open>The active-workout provider (context/ActiveWorkoutContext.tsx)\<close>

text \<open>
  The provider's React state is the first five fields of \<open>ctx\<close>. The remaining
  fields are the part of the runtime the provider's code acts on:
  \<^item> \<open>awRef\<close> is the identity of the object held in \<open>activeWorkout\<close>; it changes
    whenever \<open>setActiveWorkout\<close> stores another object, which is what the dependency
    array \<open>[activeWorkout]\<close> of the timer effect compares;
  \<^item> \<open>intervals\<close> are the ids of the browser's live \<open>setInterval\<close> timers and
    \<open>nextInterval\<close> is the id the next \<open>setInterval\<close> returns;
  \<^item> \<open>effectRef\<close> and \<open>effectInterval\<close> are the \<open>activeWorkout\<close> identity and the
    \<open>timerInterval\<close> of the render in which the timer effect last ran: its cleanup
    \<open>() => stopTimer()\<close> closes over that render's \<open>timerInterval\<close>.
\<close>

text \<open>The elapsed-time counter is a JavaScript number: a count of seconds, or \<open>NaN\<close>
  when it was computed from a timestamp that \<open>Date\<close> cannot parse.\<close>

datatype seconds = Seconds int | NaN

record ctx =
  activeWorkout :: "Workout option"
  loading :: bool
  error :: "detail option"
  workoutTimer :: seconds
  timerInterval :: "nat option"
  awRef :: nat
  intervals :: "nat list"
  nextInterval :: nat
  effectRef :: nat
  effectInterval :: "nat option"

text \<open>
  What an \<open>async\<close> operation of the provider leaves behind: the state, the value it
  threw (the promise's rejection) if any, and the service requests it sent.
\<close>

record outcome =
  after :: ctx
  thrown :: "err option"
  calls :: "call list"

definition orEmpty :: "'a list option \<Rightarrow> 'a list" where
  "orEmpty xs = (case xs of None \<Rightarrow> [] | Some ys \<Rightarrow> ys)"

text \<open>\<open>setActiveWorkout(v)\<close> with a value: storing \<open>null\<close> over \<open>null\<close> keeps the
  identity, everything else is another object.\<close>

definition setActiveWorkout :: "Workout option \<Rightarrow> ctx \<Rightarrow> ctx" where
  "setActiveWorkout v c =
     c\<lparr>activeWorkout := v,
       awRef := (if v = None \<and> activeWorkout c = None then awRef c else awRef c + 1)\<rparr>"

text \<open>\<open>setActiveWorkout(prev => { if (!prev) return prev; return {...} })\<close>.\<close>

definition updateActiveWorkout :: "(Workout \<Rightarrow> Workout) \<Rightarrow> ctx \<Rightarrow> ctx" where
  "updateActiveWorkout f c =
     (case activeWorkout c of
        None \<Rightarrow> c
      | Some prev \<Rightarrow> c\<lparr>activeWorkout := Some (f prev), awRef := awRef c + 1\<rparr>)"

text \<open>\<open>if (timerInterval)\<close>: a number is truthy unless it is 0.\<close>

definition truthyInterval :: "nat option \<Rightarrow> bool" where
  "truthyInterval t = (case t of None \<Rightarrow> False | Some i \<Rightarrow> i \<noteq> 0)"

text \<open>\<open>startTimer\<close> and \<open>stopTimer\<close> read \<open>timerInterval\<close> from the closure of the
  render that created them: it is their first argument.\<close>

definition startTimer :: "nat option \<Rightarrow> ctx \<Rightarrow> ctx" where
  "startTimer t c =
     (if truthyInterval t then c
      else c\<lparr>intervals := nextInterval c # intervals c,
             nextInterval := nextInterval c + 1,
             timerInterval := Some (nextInterval c)\<rparr>)"

definition stopTimer :: "nat option \<Rightarrow> ctx \<Rightarrow> ctx" where
  "stopTimer t c =
     (case t of
        None \<Rightarrow> c
      | Some i \<Rightarrow>
          if i \<noteq> 0 then c\<lparr>intervals := removeAll i (intervals c), timerInterval := None\<rparr>
          else c)"

definition handleError :: "err \<Rightarrow> string \<Rightarrow> ctx \<Rightarrow> ctx" where
  "handleError e defaultMessage c = c\<lparr>error := Some (DetailString (errorMessage e defaultMessage))\<rparr>"

text \<open>The browser's clock and \<open>Date\<close> parsing are a parameter \<open>elapsed\<close>: the whole
  seconds between a timestamp and now, or \<open>None\<close> for a timestamp that does not parse
  (\<open>getTime()\<close> is then \<open>NaN\<close>, and so is the value stored).\<close>

definition calculateTimer :: "(string \<Rightarrow> int option) \<Rightarrow> Workout \<Rightarrow> ctx \<Rightarrow> ctx" where
  "calculateTimer elapsed workout c =
     (if started_at workout \<noteq> [] then
        c\<lparr>workoutTimer :=
            (case elapsed (started_at workout) of None \<Rightarrow> NaN | Some n \<Rightarrow> Seconds n)\<rparr>
      else c)"

definition loadActiveWorkout :: "service \<Rightarrow> (string \<Rightarrow> int option) \<Rightarrow> ctx \<Rightarrow> outcome" where
  "loadActiveWorkout svc elapsed c =
     (let c1 = c\<lparr>loading := True\<rparr> in
      case svc_getActiveWorkout svc of
        Inr (Some workout) \<Rightarrow>
          \<lparr>after = (calculateTimer elapsed workout (setActiveWorkout (Some workout) c1))\<lparr>loading := False\<rparr>,
           thrown = None, calls = [GetActiveWorkout]\<rparr>
      | Inr None \<Rightarrow> \<lparr>after = c1\<lparr>loading := False\<rparr>, thrown = None, calls = [GetActiveWorkout]\<rparr>
      | Inl e \<Rightarrow> \<lparr>after = c1\<lparr>loading := False\<rparr>, thrown = None, calls = [GetActiveWorkout]\<rparr>)"

definition startWorkout :: "service \<Rightarrow> WorkoutCreate \<Rightarrow> ctx \<Rightarrow> outcome" where
  "startWorkout svc workoutData c =
     (let c1 = c\<lparr>loading := True, error := None\<rparr> in
      case svc_createWorkout svc workoutData of
        Inr workout \<Rightarrow>
          \<lparr>after = (setActiveWorkout (Some workout) c1)\<lparr>workoutTimer := Seconds 0, loading := False\<rparr>,
           thrown = None, calls = [CreateWorkout workoutData]\<rparr>
      | Inl e \<Rightarrow>
          \<lparr>after = (handleError e ''Failed to start workout'' c1)\<lparr>loading := False\<rparr>,
           thrown = Some e, calls = [CreateWorkout workoutData]\<rparr>)"

definition startWorkoutFromTemplate :: "service \<Rightarrow> int \<Rightarrow> WorkoutCreate option \<Rightarrow> ctx \<Rightarrow> outcome" where
  "startWorkoutFromTemplate svc templateId workoutData c =
     (let c1 = c\<lparr>loading := True, error := None\<rparr> in
      case svc_createWorkoutFromTemplate svc templateId workoutData of
        Inr workout \<Rightarrow>
          \<lparr>after = (setActiveWorkout (Some workout) c1)\<lparr>workoutTimer := Seconds 0, loading := False\<rparr>,
           thrown = None, calls = [CreateWorkoutFromTemplate templateId workoutData]\<rparr>
      | Inl e \<Rightarrow>
          \<lparr>after = (handleError e ''Failed to start workout from template'' c1)\<lparr>loading := False\<rparr>,
           thrown = Some e, calls = [CreateWorkoutFromTemplate templateId workoutData]\<rparr>)"

definition completeWorkout :: "service \<Rightarrow> ctx \<Rightarrow> outcome" where
  "completeWorkout svc c =
     (case activeWorkout c of
        None \<Rightarrow> \<lparr>after = c, thrown = None, calls = []\<rparr>
      | Some aw \<Rightarrow>
          (let c1 = c\<lparr>loading := True, error := None\<rparr> in
           case svc_completeWorkout svc (w_id aw) of
             Inr _ \<Rightarrow>
               \<lparr>after = (setActiveWorkout None c1)\<lparr>workoutTimer := Seconds 0, loading := False\<rparr>,
                thrown = None, calls = [CompleteWorkout (w_id aw)]\<rparr>
           | Inl e \<Rightarrow>
               \<lparr>after = (handleError e ''Failed to complete workout'' c1)\<lparr>loading := False\<rparr>,
                thrown = Some e, calls = [CompleteWorkout (w_id aw)]\<rparr>))"

definition cancelWorkout :: "service \<Rightarrow> ctx \<Rightarrow> outcome" where
  "cancelWorkout svc c =
     (case activeWorkout c of
        None \<Rightarrow> \<lparr>after = c, thrown = None, calls = []\<rparr>
      | Some aw \<Rightarrow>
          (let c1 = c\<lparr>loading := True, error := None\<rparr> in
           case svc_cancelWorkout svc (w_id aw) of
             Inr _ \<Rightarrow>
               \<lparr>after = (stopTimer (timerInterval c)
                           ((setActiveWorkout None c1)\<lparr>workoutTimer := Seconds 0\<rparr>))\<lparr>loading := False\<rparr>,
                thrown = None, calls = [CancelWorkout (w_id aw)]\<rparr>
           | Inl e \<Rightarrow>
               \<lparr>after = (handleError e ''Failed to cancel workout'' c1)\<lparr>loading := False\<rparr>,
                thrown = Some e, calls = [CancelWorkout (w_id aw)]\<rparr>))"

definition updateWorkoutNotes :: "service \<Rightarrow> string \<Rightarrow> ctx \<Rightarrow> outcome" where
  "updateWorkoutNotes svc notes c =
     (case activeWorkout c of
        None \<Rightarrow> \<lparr>after = c, thrown = None, calls = []\<rparr>
      | Some aw \<Rightarrow>
          (case svc_updateWorkoutNotes svc (w_id aw) notes of
             Inr updatedWorkout \<Rightarrow>
               \<lparr>after = setActiveWorkout (Some updatedWorkout) c,
                thrown = None, calls = [UpdateWorkoutNotes (w_id aw) notes]\<rparr>
           | Inl e \<Rightarrow>
               \<lparr>after = handleError e ''Failed to update workout notes'' c,
                thrown = Some e, calls = [UpdateWorkoutNotes (w_id aw) notes]\<rparr>))"

text \<open>\<open>err.response?.data?.detail || err.message || 'Failed to add exercise to workout'\<close>:
  the first truthy operand, whatever its type.\<close>

definition addExerciseError :: "err \<Rightarrow> detail" where
  "addExerciseError e =
     (if truthyDetail (response_detail e) then
        (case response_detail e of Some d \<Rightarrow> d | None \<Rightarrow> DetailString ''Failed to add exercise to workout'')
      else (case err_message e of
              Some m \<Rightarrow> if m \<noteq> [] then DetailString m else DetailString ''Failed to add exercise to workout''
            | None \<Rightarrow> DetailString ''Failed to add exercise to workout''))"

definition addExerciseToWorkout :: "service \<Rightarrow> WorkoutExerciseCreate \<Rightarrow> ctx \<Rightarrow> outcome" where
  "addExerciseToWorkout svc exerciseData c =
     (case activeWorkout c of
        None \<Rightarrow> \<lparr>after = c, thrown = Some (newError ''No active workout found''), calls = []\<rparr>
      | Some aw \<Rightarrow>
          (let c1 = c\<lparr>error := None\<rparr> in
           case svc_addExerciseToWorkout svc (w_id aw) exerciseData of
             Inr workoutExercise \<Rightarrow>
               \<lparr>after = updateActiveWorkout
                   (\<lambda>prev. prev\<lparr>workout_exercises :=
                      Some (orEmpty (workout_exercises prev) @ [workoutExercise])\<rparr>) c1,
                thrown = None, calls = [AddExerciseToWorkout (w_id aw) exerciseData]\<rparr>
           | Inl e \<Rightarrow>
               \<lparr>after = c1\<lparr>error := Some (addExerciseError e)\<rparr>,
                thrown = Some (newError (detailToString (addExerciseError e))),
                calls = [AddExerciseToWorkout (w_id aw) exerciseData]\<rparr>))"

definition removeExerciseFromWorkout :: "service \<Rightarrow> int \<Rightarrow> ctx \<Rightarrow> outcome" where
  "removeExerciseFromWorkout svc workoutExerciseId c =
     (case activeWorkout c of
        None \<Rightarrow> \<lparr>after = c, thrown = None, calls = []\<rparr>
      | Some aw \<Rightarrow>
          (let c1 = c\<lparr>error := None\<rparr> in
           case svc_removeExerciseFromWorkout svc (w_id aw) workoutExerciseId of
             Inr _ \<Rightarrow>
               \<lparr>after = updateActiveWorkout
                   (\<lambda>prev. prev\<lparr>workout_exercises :=
                      Some (filter (\<lambda>we. we_id we \<noteq> workoutExerciseId)
                              (orEmpty (workout_exercises prev)))\<rparr>) c1,
                thrown = None, calls = [RemoveExerciseFromWorkout (w_id aw) workoutExerciseId]\<rparr>
           | Inl e \<Rightarrow>
               \<lparr>after = handleError e ''Failed to remove exercise from workout'' c1,
                thrown = Some e, calls = [RemoveExerciseFromWorkout (w_id aw) workoutExerciseId]\<rparr>))"

definition updateExerciseNotes :: "service \<Rightarrow> int \<Rightarrow> string \<Rightarrow> ctx \<Rightarrow> outcome" where
  "updateExerciseNotes svc workoutExerciseId notes c =
     (case activeWorkout c of
        None \<Rightarrow> \<lparr>after = c, thrown = None, calls = []\<rparr>
      | Some aw \<Rightarrow>
          (case svc_updateExerciseNotes svc (w_id aw) workoutExerciseId notes of
             Inr updatedExercise \<Rightarrow>
               \<lparr>after = updateActiveWorkout
                   (\<lambda>prev. prev\<lparr>workout_exercises :=
                      Some (map (\<lambda>we. if we_id we = workoutExerciseId then updatedExercise else we)
                              (orEmpty (workout_exercises prev)))\<rparr>) c,
                thrown = None, calls = [UpdateExerciseNotes (w_id aw) workoutExerciseId notes]\<rparr>
           | Inl e \<Rightarrow>
               \<lparr>after = handleError e ''Failed to update exercise notes'' c,
                thrown = Some e, calls = [UpdateExerciseNotes (w_id aw) workoutExerciseId notes]\<rparr>))"

definition addSet :: "service \<Rightarrow> int \<Rightarrow> ExerciseSetCreate \<Rightarrow> ctx \<Rightarrow> outcome" where
  "addSet svc workoutExerciseId setData c =
     (case activeWorkout c of
        None \<Rightarrow> \<lparr>after = c, thrown = None, calls = []\<rparr>
      | Some aw \<Rightarrow>
          (let c1 = c\<lparr>error := None\<rparr> in
           case svc_addSetToExercise svc (w_id aw) workoutExerciseId setData of
             Inr newSet \<Rightarrow>
               \<lparr>after = updateActiveWorkout
                   (\<lambda>prev. prev\<lparr>workout_exercises :=
                      Some (map (\<lambda>we. if we_id we = workoutExerciseId
                                       then we\<lparr>sets := Some (orEmpty (sets we) @ [newSet])\<rparr>
                                       else we)
                              (orEmpty (workout_exercises prev)))\<rparr>) c1,
                thrown = None, calls = [AddSetToExercise (w_id aw) workoutExerciseId setData]\<rparr>
           | Inl e \<Rightarrow>
               \<lparr>after = handleError e ''Failed to add set'' c1,
                thrown = Some e, calls = [AddSetToExercise (w_id aw) workoutExerciseId setData]\<rparr>))"

definition updateSet :: "service \<Rightarrow> int \<Rightarrow> int \<Rightarrow> ExerciseSetUpdate \<Rightarrow> ctx \<Rightarrow> outcome" where
  "updateSet svc workoutExerciseId setId setData c =
     (case activeWorkout c of
        None \<Rightarrow> \<lparr>after = c, thrown = None, calls = []\<rparr>
      | Some aw \<Rightarrow>
          (let c1 = c\<lparr>error := None\<rparr> in
           case svc_updateExerciseSet svc (w_id aw) workoutExerciseId setId setData of
             Inr updatedSet \<Rightarrow>
               \<lparr>after = updateActiveWorkout
                   (\<lambda>prev. prev\<lparr>workout_exercises :=
                      Some (map (\<lambda>we. if we_id we = workoutExerciseId
                                       then we\<lparr>sets :=
                                              Some (map (\<lambda>set. if s_id set = setId then updatedSet else set)
                                                      (orEmpty (sets we)))\<rparr>
                                       else we)
                              (orEmpty (workout_exercises prev)))\<rparr>) c1,
                thrown = None,
                calls = [UpdateExerciseSet (w_id aw) workoutExerciseId setId setData]\<rparr>
           | Inl e \<Rightarrow>
               \<lparr>after = handleError e ''Failed to update set'' c1,
                thrown = Some e,
                calls = [UpdateExerciseSet (w_id aw) workoutExerciseId setId setData]\<rparr>))"

definition deleteSet :: "service \<Rightarrow> int \<Rightarrow> int \<Rightarrow> ctx \<Rightarrow> outcome" where
  "deleteSet svc workoutExerciseId setId c =
     (case activeWorkout c of
        None \<Rightarrow> \<lparr>after = c, thrown = None, calls = []\<rparr>
      | Some aw \<Rightarrow>
          (let c1 = c\<lparr>error := None\<rparr> in
           case svc_deleteExerciseSet svc (w_id aw) workoutExerciseId setId of
             Inr _ \<Rightarrow>
               \<lparr>after = updateActiveWorkout
                   (\<lambda>prev. prev\<lparr>workout_exercises :=
                      Some (map (\<lambda>we. if we_id we = workoutExerciseId
                                       then we\<lparr>sets :=
                                              Some (filter (\<lambda>set. s_id set \<noteq> setId) (orEmpty (sets we)))\<rparr>
                                       else we)
                              (orEmpty (workout_exercises prev)))\<rparr>) c1,
                thrown = None, calls = [DeleteExerciseSet (w_id aw) workoutExerciseId setId]\<rparr>
           | Inl e \<Rightarrow>
               \<lparr>after = handleError e ''Failed to delete set'' c1,
                thrown = Some e, calls = [DeleteExerciseSet (w_id aw) workoutExerciseId setId]\<rparr>))"

definition completeSet :: "service \<Rightarrow> int \<Rightarrow> int \<Rightarrow> ctx \<Rightarrow> outcome" where
  "completeSet svc workoutExerciseId setId c =
     updateSet svc workoutExerciseId setId
       \<lparr>su_reps = None, su_weight = None, su_duration = None, su_rest_duration = None,
        su_notes = None, su_completed = Some True\<rparr> c"

definition refreshActiveWorkout :: "service \<Rightarrow> (string \<Rightarrow> int option) \<Rightarrow> ctx \<Rightarrow> outcome" where
  "refreshActiveWorkout svc elapsed c =
     (case activeWorkout c of
        None \<Rightarrow> \<lparr>after = c, thrown = None, calls = []\<rparr>
      | Some aw \<Rightarrow>
          (case svc_getWorkout svc (w_id aw) of
             Inr updated \<Rightarrow>
               \<lparr>after = calculateTimer elapsed updated (setActiveWorkout (Some updated) c),
                thrown = None, calls = [GetWorkout (w_id aw)]\<rparr>
           | Inl e \<Rightarrow>
               \<lparr>after = handleError e ''Failed to refresh workout'' c,
                thrown = None, calls = [GetWorkout (w_id aw)]\<rparr>))"

definition clearError :: "ctx \<Rightarrow> ctx" where
  "clearError c = c\<lparr>error := None\<rparr>"

subsection \<open>The timer effect and the interval callback\<close>

text \<open>\<open>activeWorkout && !activeWorkout.completed_at\<close>.\<close>

definition timerWanted :: "ctx \<Rightarrow> bool" where
  "timerWanted c =
     (case activeWorkout c of None \<Rightarrow> False | Some w \<Rightarrow> \<not> truthyString (completed_at w))"

text \<open>
  \<open>useEffect(() => { if (...) startTimer(); else stopTimer(); return () => stopTimer(); },
  [activeWorkout])\<close> at the commit of a render. React skips the effect while the
  dependency is the same object. Otherwise it first runs the cleanup returned by the
  previous run, whose \<open>stopTimer\<close> sees the \<open>timerInterval\<close> of that earlier render
  (\<open>effectInterval\<close>), and then the effect of the current render, whose \<open>startTimer\<close> and
  \<open>stopTimer\<close> see the current render's \<open>timerInterval\<close>. The \<open>setTimerInterval\<close> calls
  of both are applied in order afterwards, so the last one wins.
\<close>

definition timerEffect :: "ctx \<Rightarrow> ctx" where
  "timerEffect c =
     (if awRef c = effectRef c then c
      else
        (let t = timerInterval c;
             c1 = stopTimer (effectInterval c) c;
             c2 = (if timerWanted c then startTimer t c1 else stopTimer t c1)
         in c2\<lparr>effectRef := awRef c, effectInterval := t\<rparr>))"

text \<open>\<open>prev + 1\<close> on a JavaScript number.\<close>

definition plusOne :: "seconds \<Rightarrow> seconds" where
  "plusOne v = (case v of Seconds n \<Rightarrow> Seconds (n + 1) | NaN \<Rightarrow> NaN)"

text \<open>The callback of \<open>setInterval\<close>, \<open>setWorkoutTimer(prev => prev + 1)\<close>: the browser
  calls it only for an interval that has not been cleared.\<close>

definition tick :: "nat \<Rightarrow> ctx \<Rightarrow> ctx option" where
  "tick i c =
     (if i \<in> set (intervals c) then Some (c\<lparr>workoutTimer := plusOne (workoutTimer c)\<rparr>)
      else None)"

section \<open>The error banner of the workout page (pages/WorkoutPage.tsx)\<close>



text \<open>An operation of the provider followed by the commit of the render it causes.\<close>

definition commit :: "outcome \<Rightarrow> ctx" where
  "commit r = timerEffect (after r)"

text \<open>The provider after mounting: the initial \<open>useState\<close> values, and the timer effect
  has run once with no workout (its \<open>stopTimer\<close> found no interval).\<close>

definition initialCtx :: ctx where
  "initialCtx =
     \<lparr>activeWorkout = None, loading = False, error = None, workoutTimer = Seconds 0,
      timerInterval = None, awRef = 0, intervals = [], nextInterval = 1,
      effectRef = 0, effectInterval = None\<rparr>"

section \<open>The exercise selector (components/workout/ExerciseSelector.tsx)\<close>

record selector =
  exercises :: "Exercise list"
  sel_loading :: bool
  sel_error :: detail
  searchTerm :: string
  exerciseTypeFilter :: string
  muscleGroupFilter :: string
  addingExerciseId :: "int option"

definition initialSelector :: selector where
  "initialSelector =
     \<lparr>exercises = [], sel_loading = False, sel_error = DetailString [], searchTerm = [],
      exerciseTypeFilter = [], muscleGroupFilter = [], addingExerciseId = None\<rparr>"

text \<open>\<open>loadExercises\<close>; its argument is the answer of
  \<open>exerciseService.getExercises(0, 1000)\<close>.\<close>

definition loadExercises :: "err + Exercise list \<Rightarrow> selector \<Rightarrow> selector" where
  "loadExercises answer sel =
     (case answer of
        Inr exercisesData \<Rightarrow> sel\<lparr>exercises := filter is_active exercisesData, sel_loading := False\<rparr>
      | Inl e \<Rightarrow> sel\<lparr>sel_error := DetailString ''Failed to load exercises'', sel_loading := False\<rparr>)"

text \<open>\<open>String.prototype.includes\<close>.\<close>

fun includes_str :: "string \<Rightarrow> string \<Rightarrow> bool" where
  "includes_str [] needle = (needle = [])"
| "includes_str (h # hs) needle = (take (length needle) (h # hs) = needle \<or> includes_str hs needle)"

text \<open>\<open>field?.toLowerCase().includes(searchLower)\<close>: \<open>undefined\<close>, hence falsy, when the
  field is absent. \<open>toLowerCase\<close> is the JavaScript built-in, a parameter here.\<close>

definition fieldIncludes :: "(string \<Rightarrow> string) \<Rightarrow> string option \<Rightarrow> string \<Rightarrow> bool" where
  "fieldIncludes toLowerCase field searchLower =
     (case field of None \<Rightarrow> False | Some v \<Rightarrow> includes_str (toLowerCase v) searchLower)"

definition typeName :: "ExerciseType \<Rightarrow> string" where
  "typeName t = (case t of WEIGHT_BASED \<Rightarrow> ''WEIGHT_BASED'' | TIME_BASED \<Rightarrow> ''TIME_BASED'')"

definition matchesFilters :: "(string \<Rightarrow> string) \<Rightarrow> selector \<Rightarrow> Exercise \<Rightarrow> bool" where
  "matchesFilters toLowerCase sel ex =
     (if searchTerm sel \<noteq> [] \<and>
         \<not> (includes_str (toLowerCase (e_name ex)) (toLowerCase (searchTerm sel)) \<or>
            fieldIncludes toLowerCase (e_description ex) (toLowerCase (searchTerm sel)) \<or>
            fieldIncludes toLowerCase (muscle_group ex) (toLowerCase (searchTerm sel)) \<or>
            fieldIncludes toLowerCase (equipment ex) (toLowerCase (searchTerm sel)))
      then False
      else if exerciseTypeFilter sel \<noteq> [] \<and> typeName (exercise_type ex) \<noteq> exerciseTypeFilter sel
      then False
      else if muscleGroupFilter sel \<noteq> [] \<and> muscle_group ex \<noteq> Some (muscleGroupFilter sel)
      then False
      else True)"

definition filteredExercises :: "(string \<Rightarrow> string) \<Rightarrow> selector \<Rightarrow> Exercise list" where
  "filteredExercises toLowerCase sel = filter (matchesFilters toLowerCase sel) (exercises sel)"

definition isExerciseInWorkout :: "ctx \<Rightarrow> int \<Rightarrow> bool" where
  "isExerciseInWorkout c exerciseId =
     (case activeWorkout c of
        None \<Rightarrow> False
      | Some aw \<Rightarrow> list_ex (\<lambda>we. exercise_id we = exerciseId) (orEmpty (workout_exercises aw)))"

text \<open>The rows of the list that carry an \<open>Add\<close> button (the others show \<open>Added\<close>).\<close>

definition offered :: "(string \<Rightarrow> string) \<Rightarrow> selector \<Rightarrow> ctx \<Rightarrow> Exercise list" where
  "offered toLowerCase sel c =
     filter (\<lambda>ex. \<not> isExerciseInWorkout c (e_id ex)) (filteredExercises toLowerCase sel)"

record selectorOutcome =
  sel_after :: selector
  ctx_after :: ctx
  sel_calls :: "call list"
  closed :: bool

text \<open>\<open>err.response?.data?.detail || err.message || 'Failed to add exercise'\<close>.\<close>

definition selectorError :: "err \<Rightarrow> detail" where
  "selectorError e =
     (if truthyDetail (response_detail e) then
        (case response_detail e of Some d \<Rightarrow> d | None \<Rightarrow> DetailString ''Failed to add exercise'')
      else (case err_message e of
              Some m \<Rightarrow> if m \<noteq> [] then DetailString m else DetailString ''Failed to add exercise''
            | None \<Rightarrow> DetailString ''Failed to add exercise''))"

definition handleAddExercise :: "service \<Rightarrow> Exercise \<Rightarrow> selector \<Rightarrow> ctx \<Rightarrow> selectorOutcome" where
  "handleAddExercise svc ex sel c =
     (case activeWorkout c of
        None \<Rightarrow>
          \<lparr>sel_after = sel\<lparr>sel_error := DetailString ''No active workout found''\<rparr>,
           ctx_after = c, sel_calls = [], closed = False\<rparr>
      | Some aw \<Rightarrow>
          (let sel1 = sel\<lparr>addingExerciseId := Some (e_id ex), sel_error := DetailString []\<rparr>;
               orderInWorkout = int (length (orEmpty (workout_exercises aw))) + 1;
               exerciseData = \<lparr>wec_exercise_id = e_id ex, wec_order_index = orderInWorkout,
                               wec_notes = None\<rparr>;
               r = addExerciseToWorkout svc exerciseData c
           in case thrown r of
                None \<Rightarrow>
                  \<lparr>sel_after = sel1\<lparr>addingExerciseId := None\<rparr>,
                   ctx_after = commit r, sel_calls = calls r, closed = True\<rparr>
              | Some e \<Rightarrow>
                  \<lparr>sel_after = sel1\<lparr>sel_error := selectorError e, addingExerciseId := None\<rparr>,
                   ctx_after = commit r, sel_calls = calls r, closed = False\<rparr>))"

definition handleClose :: "selector \<Rightarrow> selector" where
  "handleClose sel =
     sel\<lparr>searchTerm := [], exerciseTypeFilter := [], muscleGroupFilter := [],
         sel_error := DetailString []\<rparr>"

text \<open>
  What happens to the selector: the user opens it (which loads the catalog), types
  into the three filters, presses \<open>Add\<close> on the i-th offered row or closes it, and
  the provider's state changes under it. The answers of the server come with the
  event.
\<close>

datatype selectorEvent =
    Open "err + Exercise list"
  | SetSearchTerm string
  | SetExerciseTypeFilter string
  | SetMuscleGroupFilter string
  | ClickAdd nat service
  | Close
  | ProviderChanged ctx

text \<open>Pressing \<open>Add\<close> on the i-th offered row calls \<open>handleAddExercise\<close> with that row's
  exercise; there is no button beyond the list.\<close>

definition clickAdd ::
  "(string \<Rightarrow> string) \<Rightarrow> nat \<Rightarrow> service \<Rightarrow> selector \<times> ctx \<Rightarrow> selectorOutcome option" where
  "clickAdd toLowerCase i svc st =
     (if i < length (offered toLowerCase (fst st) (snd st)) then
        Some (handleAddExercise svc (offered toLowerCase (fst st) (snd st) ! i) (fst st) (snd st))
      else None)"

definition selectorStep ::
  "(string \<Rightarrow> string) \<Rightarrow> selector \<times> ctx \<Rightarrow> selectorEvent \<Rightarrow> selector \<times> ctx" where
  "selectorStep toLowerCase st ev =
     (case ev of
        Open answer \<Rightarrow> (loadExercises answer ((fst st)\<lparr>sel_loading := True\<rparr>), snd st)
      | SetSearchTerm v \<Rightarrow> ((fst st)\<lparr>searchTerm := v\<rparr>, snd st)
      | SetExerciseTypeFilter v \<Rightarrow> ((fst st)\<lparr>exerciseTypeFilter := v\<rparr>, snd st)
      | SetMuscleGroupFilter v \<Rightarrow> ((fst st)\<lparr>muscleGroupFilter := v\<rparr>, snd st)
      | ClickAdd i svc \<Rightarrow>
          (case clickAdd toLowerCase i svc st of
             Some r \<Rightarrow> (sel_after r, ctx_after r)
           | None \<Rightarrow> st)
      | Close \<Rightarrow> (handleClose (fst st), snd st)
      | ProviderChanged c \<Rightarrow> (fst st, c))"

definition selectorRun ::
  "(string \<Rightarrow> string) \<Rightarrow> selector \<times> ctx \<Rightarrow> selectorEvent list \<Rightarrow> selector \<times> ctx" where
  "selectorRun toLowerCase st evs = foldl (selectorStep toLowerCase) st evs"

section \<open>The session engine\<close>

text \<open>
  Modelled from the spec: the server-side session engine (the FastAPI backend), of
  which the repository holds only the README. The definitions of this section follow
  sections 3, 4.1, 6 and 7 of the specification: the rows of a workout, the typed
  failures, and one function per operation. Every operation is scoped to the acting
  user (another user's workout is \<open>NOT_FOUND\<close>), and a request is a transaction: a
  failing request leaves the store as it was.
\<close>

datatype failure = VALIDATION | CONFLICT | NOT_FOUND | AUTH

record ExerciseRow =
  er_id :: int
  er_exercise_id :: int
  er_order_index :: int
  er_notes :: "string option"
  er_sets :: "ExerciseSet list"

record WorkoutRow =
  wr_id :: int
  wr_owner :: int
  wr_name :: "string option"
  wr_started_at :: string
  wr_completed_at :: "string option"
  wr_notes :: "string option"
  wr_template :: "int option"
  wr_exercises :: "ExerciseRow list"

record TemplateEntry =
  tn_exercise_id :: int
  tn_order_index :: int
  tn_suggested_sets :: "int option"
  tn_suggested_reps :: "int option"
  tn_suggested_weight :: "rat option"
  tn_suggested_duration :: "int option"

record TemplateRow =
  tr_id :: int
  tr_name :: string
  tr_entries :: "TemplateEntry list"

record engine =
  workouts :: "WorkoutRow list"
  templates :: "TemplateRow list"
  catalog :: "Exercise list"
  nextRowId :: int

datatype reply =
    WorkoutReply WorkoutRow
  | ExerciseReply ExerciseRow
  | SetReply ExerciseSet
  | NoContent

definition activeWorkoutsOf :: "int \<Rightarrow> engine \<Rightarrow> WorkoutRow list" where
  "activeWorkoutsOf user e =
     filter (\<lambda>w. wr_owner w = user \<and> wr_completed_at w = None) (workouts e)"

definition isTarget :: "int \<Rightarrow> int \<Rightarrow> WorkoutRow \<Rightarrow> bool" where
  "isTarget user workoutId w = (wr_id w = workoutId \<and> wr_owner w = user)"

definition lookupWorkout :: "int \<Rightarrow> int \<Rightarrow> engine \<Rightarrow> WorkoutRow option" where
  "lookupWorkout user workoutId e = find (isTarget user workoutId) (workouts e)"

text \<open>Modelled from the spec: the guard of the absent backend shared by every operation
  on a workout. The workout must be the caller's (\<open>NOT_FOUND\<close> otherwise: cross-user
  access is rejected) and must not be completed (\<open>CONFLICT\<close>: a completed workout is
  immutable history).\<close>

definition mutable :: "int \<Rightarrow> int \<Rightarrow> engine \<Rightarrow> failure + WorkoutRow" where
  "mutable user workoutId e =
     (case lookupWorkout user workoutId e of
        None \<Rightarrow> Inl NOT_FOUND
      | Some w \<Rightarrow> if wr_completed_at w \<noteq> None then Inl CONFLICT else Inr w)"

definition mapTarget :: "int \<Rightarrow> int \<Rightarrow> (WorkoutRow \<Rightarrow> WorkoutRow) \<Rightarrow> engine \<Rightarrow> engine" where
  "mapTarget user workoutId f e =
     e\<lparr>workouts := map (\<lambda>w. if isTarget user workoutId w then f w else w) (workouts e)\<rparr>"

text \<open>Each \<open>TemplateExercise\<close> becomes a \<open>WorkoutExercise\<close> with the same
  \<open>order_index\<close> and no sets; the rows get consecutive fresh ids.\<close>

fun copyEntries :: "int \<Rightarrow> TemplateEntry list \<Rightarrow> ExerciseRow list" where
  "copyEntries k [] = []"
| "copyEntries k (t # ts) =
     \<lparr>er_id = k, er_exercise_id = tn_exercise_id t, er_order_index = tn_order_index t,
      er_notes = None, er_sets = []\<rparr> # copyEntries (k + 1) ts"

text \<open>Modelled from the spec: \<open>StartWorkout(user, name?, templateId?)\<close> of the absent backend. It
  fails with \<open>CONFLICT\<close> if the user already has an active workout; with a template it
  copies each entry into a new exercise row, preserving \<open>order_index\<close>, with zero sets.\<close>

definition srvStartWorkout ::
  "int \<Rightarrow> string \<Rightarrow> string option \<Rightarrow> int option \<Rightarrow> engine \<Rightarrow> failure + engine \<times> reply" where
  "srvStartWorkout user now name templateId e =
     (if activeWorkoutsOf user e \<noteq> [] then Inl CONFLICT
      else
        (case templateId of
           None \<Rightarrow>
             (let w = \<lparr>wr_id = nextRowId e, wr_owner = user, wr_name = name, wr_started_at = now,
                       wr_completed_at = None, wr_notes = None, wr_template = None,
                       wr_exercises = []\<rparr>
              in Inr (e\<lparr>workouts := workouts e @ [w], nextRowId := nextRowId e + 1\<rparr>, WorkoutReply w))
         | Some t \<Rightarrow>
             (case find (\<lambda>tp. tr_id tp = t) (templates e) of
                None \<Rightarrow> Inl NOT_FOUND
              | Some tp \<Rightarrow>
                  (let w = \<lparr>wr_id = nextRowId e, wr_owner = user, wr_name = name,
                            wr_started_at = now, wr_completed_at = None, wr_notes = None,
                            wr_template = Some t,
                            wr_exercises = copyEntries (nextRowId e + 1) (tr_entries tp)\<rparr>
                   in Inr (e\<lparr>workouts := workouts e @ [w],
                             nextRowId := nextRowId e + 1 + int (length (tr_entries tp))\<rparr>,
                           WorkoutReply w)))))"

text \<open>Modelled from the spec: \<open>GetActiveWorkout(user)\<close> of the absent backend: the user's
  non-completed workout, or \<open>NOT_FOUND\<close>.\<close>

definition srvGetActiveWorkout :: "int \<Rightarrow> engine \<Rightarrow> failure + WorkoutRow" where
  "srvGetActiveWorkout user e =
     (case activeWorkoutsOf user e of [] \<Rightarrow> Inl NOT_FOUND | w # _ \<Rightarrow> Inr w)"

text \<open>Modelled from the spec: \<open>CompleteWorkout(workout)\<close> of the absent backend: sets
  \<open>completed_at = now\<close>; fails with \<open>CONFLICT\<close> if already completed.\<close>

definition srvCompleteWorkout :: "int \<Rightarrow> string \<Rightarrow> int \<Rightarrow> engine \<Rightarrow> failure + engine \<times> reply" where
  "srvCompleteWorkout user now workoutId e =
     (case mutable user workoutId e of
        Inl f \<Rightarrow> Inl f
      | Inr w \<Rightarrow>
          Inr (mapTarget user workoutId (\<lambda>x. x\<lparr>wr_completed_at := Some now\<rparr>) e,
               WorkoutReply (w\<lparr>wr_completed_at := Some now\<rparr>)))"

text \<open>Modelled from the spec: \<open>CancelWorkout(workout)\<close> of the absent backend: hard-deletes the
  workout and all descendants. The state machine has the transition from \<open>ACTIVE\<close> only,
  \<open>COMPLETED\<close> being terminal, so a completed workout is refused.\<close>

definition srvCancelWorkout :: "int \<Rightarrow> int \<Rightarrow> engine \<Rightarrow> failure + engine \<times> reply" where
  "srvCancelWorkout user workoutId e =
     (case mutable user workoutId e of
        Inl f \<Rightarrow> Inl f
      | Inr w \<Rightarrow>
          Inr (e\<lparr>workouts := filter (\<lambda>x. \<not> isTarget user workoutId x) (workouts e)\<rparr>, NoContent))"

text \<open>Modelled from the spec: \<open>AddExercise(workout, exerciseId, order_index)\<close> of the absent
  backend: \<open>CONFLICT\<close> if the workout is completed, \<open>NOT_FOUND\<close> if the exercise is not
  in the active catalog; the caller's \<open>order_index\<close> is stored as given.\<close>

definition srvAddExercise ::
  "int \<Rightarrow> int \<Rightarrow> int \<Rightarrow> int \<Rightarrow> engine \<Rightarrow> failure + engine \<times> reply" where
  "srvAddExercise user workoutId exerciseId orderIndex e =
     (case mutable user workoutId e of
        Inl f \<Rightarrow> Inl f
      | Inr w \<Rightarrow>
          (if \<not> list_ex (\<lambda>x. e_id x = exerciseId \<and> is_active x) (catalog e) then Inl NOT_FOUND
           else
             (let row = \<lparr>er_id = nextRowId e, er_exercise_id = exerciseId,
                         er_order_index = orderIndex, er_notes = None, er_sets = []\<rparr>
              in Inr ((mapTarget user workoutId
                         (\<lambda>x. x\<lparr>wr_exercises := wr_exercises x @ [row]\<rparr>) e)
                        \<lparr>nextRowId := nextRowId e + 1\<rparr>,
                      ExerciseReply row))))"

text \<open>Modelled from the spec: \<open>RemoveExercise(workout, workoutExerciseId)\<close> of the absent
  backend: deletes the row with its sets; the remaining rows keep their \<open>order_index\<close>.\<close>

definition srvRemoveExercise :: "int \<Rightarrow> int \<Rightarrow> int \<Rightarrow> engine \<Rightarrow> failure + engine \<times> reply" where
  "srvRemoveExercise user workoutId workoutExerciseId e =
     (case mutable user workoutId e of
        Inl f \<Rightarrow> Inl f
      | Inr w \<Rightarrow>
          (if \<not> list_ex (\<lambda>r. er_id r = workoutExerciseId) (wr_exercises w) then Inl NOT_FOUND
           else Inr (mapTarget user workoutId
                       (\<lambda>x. x\<lparr>wr_exercises :=
                               filter (\<lambda>r. er_id r \<noteq> workoutExerciseId) (wr_exercises x)\<rparr>) e,
                     NoContent)))"

definition mapExercise :: "int \<Rightarrow> (ExerciseRow \<Rightarrow> ExerciseRow) \<Rightarrow> WorkoutRow \<Rightarrow> WorkoutRow" where
  "mapExercise workoutExerciseId f x =
     x\<lparr>wr_exercises := map (\<lambda>r. if er_id r = workoutExerciseId then f r else r) (wr_exercises x)\<rparr>"

text \<open>Modelled from the spec: \<open>UpdateNotes(workoutExercise, text)\<close> of the absent
  backend: field replacement, permitted only while the parent workout is active.\<close>

definition srvUpdateExerciseNotes ::
  "int \<Rightarrow> int \<Rightarrow> int \<Rightarrow> string \<Rightarrow> engine \<Rightarrow> failure + engine \<times> reply" where
  "srvUpdateExerciseNotes user workoutId workoutExerciseId content e =
     (case mutable user workoutId e of
        Inl f \<Rightarrow> Inl f
      | Inr w \<Rightarrow>
          (case find (\<lambda>r. er_id r = workoutExerciseId) (wr_exercises w) of
             None \<Rightarrow> Inl NOT_FOUND
           | Some r \<Rightarrow>
               Inr (mapTarget user workoutId
                      (mapExercise workoutExerciseId (\<lambda>r. r\<lparr>er_notes := Some content\<rparr>)) e,
                    ExerciseReply (r\<lparr>er_notes := Some content\<rparr>))))"

text \<open>Modelled from the spec: \<open>UpdateNotes(workout, text)\<close> of the absent backend: field
  replacement, permitted only while the workout is active.\<close>

definition srvUpdateWorkoutNotes ::
  "int \<Rightarrow> int \<Rightarrow> string \<Rightarrow> engine \<Rightarrow> failure + engine \<times> reply" where
  "srvUpdateWorkoutNotes user workoutId content e =
     (case mutable user workoutId e of
        Inl f \<Rightarrow> Inl f
      | Inr w \<Rightarrow>
          Inr (mapTarget user workoutId (\<lambda>x. x\<lparr>wr_notes := Some content\<rparr>) e,
               WorkoutReply (w\<lparr>wr_notes := Some content\<rparr>)))"

definition newSetRow :: "int \<Rightarrow> int \<Rightarrow> string \<Rightarrow> ExerciseSetCreate \<Rightarrow> ExerciseSet" where
  "newSetRow k workoutExerciseId now d =
     \<lparr>s_id = k, workout_exercise_id = workoutExerciseId, set_number = sc_set_number d,
      reps = sc_reps d, weight = sc_weight d, duration = sc_duration d,
      rest_duration = sc_rest_duration d, s_notes = sc_notes d,
      completed = (case sc_completed d of None \<Rightarrow> False | Some b \<Rightarrow> b),
      s_created_at = now, s_updated_at = now\<rparr>"

text \<open>Modelled from the spec: \<open>AddSet(workout, workoutExerciseId, set)\<close> of the absent backend;
  \<open>CONFLICT\<close> if the workout is completed.\<close>

definition srvAddSet ::
  "int \<Rightarrow> string \<Rightarrow> int \<Rightarrow> int \<Rightarrow> ExerciseSetCreate \<Rightarrow> engine \<Rightarrow> failure + engine \<times> reply" where
  "srvAddSet user now workoutId workoutExerciseId d e =
     (case mutable user workoutId e of
        Inl f \<Rightarrow> Inl f
      | Inr w \<Rightarrow>
          (if \<not> list_ex (\<lambda>r. er_id r = workoutExerciseId) (wr_exercises w) then Inl NOT_FOUND
           else
             Inr ((mapTarget user workoutId
                     (mapExercise workoutExerciseId
                        (\<lambda>r. r\<lparr>er_sets := er_sets r @ [newSetRow (nextRowId e) workoutExerciseId now d]\<rparr>)) e)
                    \<lparr>nextRowId := nextRowId e + 1\<rparr>,
                  SetReply (newSetRow (nextRowId e) workoutExerciseId now d))))"

text \<open>Partial update: only the supplied fields change.\<close>

definition patchSet :: "string \<Rightarrow> ExerciseSetUpdate \<Rightarrow> ExerciseSet \<Rightarrow> ExerciseSet" where
  "patchSet now d s =
     s\<lparr>reps := (case su_reps d of None \<Rightarrow> reps s | Some v \<Rightarrow> Some v),
       weight := (case su_weight d of None \<Rightarrow> weight s | Some v \<Rightarrow> Some v),
       duration := (case su_duration d of None \<Rightarrow> duration s | Some v \<Rightarrow> Some v),
       rest_duration := (case su_rest_duration d of None \<Rightarrow> rest_duration s | Some v \<Rightarrow> Some v),
       s_notes := (case su_notes d of None \<Rightarrow> s_notes s | Some v \<Rightarrow> Some v),
       completed := (case su_completed d of None \<Rightarrow> completed s | Some v \<Rightarrow> v),
       s_updated_at := now\<rparr>"

definition findSet :: "int \<Rightarrow> int \<Rightarrow> WorkoutRow \<Rightarrow> ExerciseSet option" where
  "findSet workoutExerciseId setId w =
     (case find (\<lambda>r. er_id r = workoutExerciseId) (wr_exercises w) of
        None \<Rightarrow> None
      | Some r \<Rightarrow> find (\<lambda>s. s_id s = setId) (er_sets r))"

text \<open>Modelled from the spec: \<open>UpdateSet(workout, workoutExerciseId, setId, fields)\<close> of the
  absent backend: a partial update, \<open>NOT_FOUND\<close> for an unknown set; sets are immutable
  after completion.\<close>

definition srvUpdateSet ::
  "int \<Rightarrow> string \<Rightarrow> int \<Rightarrow> int \<Rightarrow> int \<Rightarrow> ExerciseSetUpdate \<Rightarrow> engine \<Rightarrow> failure + engine \<times> reply" where
  "srvUpdateSet user now workoutId workoutExerciseId setId d e =
     (case mutable user workoutId e of
        Inl f \<Rightarrow> Inl f
      | Inr w \<Rightarrow>
          (case findSet workoutExerciseId setId w of
             None \<Rightarrow> Inl NOT_FOUND
           | Some s \<Rightarrow>
               Inr (mapTarget user workoutId
                      (mapExercise workoutExerciseId
                         (\<lambda>r. r\<lparr>er_sets := map (\<lambda>x. if s_id x = setId then patchSet now d x else x)
                                               (er_sets r)\<rparr>)) e,
                    SetReply (patchSet now d s))))"

text \<open>Modelled from the spec: \<open>DeleteSet(workout, workoutExerciseId, setId)\<close> of the absent
  backend.\<close>

definition srvDeleteSet ::
  "int \<Rightarrow> int \<Rightarrow> int \<Rightarrow> int \<Rightarrow> engine \<Rightarrow> failure + engine \<times> reply" where
  "srvDeleteSet user workoutId workoutExerciseId setId e =
     (case mutable user workoutId e of
        Inl f \<Rightarrow> Inl f
      | Inr w \<Rightarrow>
          (case findSet workoutExerciseId setId w of
             None \<Rightarrow> Inl NOT_FOUND
           | Some s \<Rightarrow>
               Inr (mapTarget user workoutId
                      (mapExercise workoutExerciseId
                         (\<lambda>r. r\<lparr>er_sets := filter (\<lambda>x. s_id x \<noteq> setId) (er_sets r)\<rparr>)) e,
                    NoContent)))"

text \<open>The requests of the HTTP interface (section 6 of the specification).\<close>

datatype request =
    StartWorkoutReq "string option" "int option"
  | CompleteWorkoutReq int
  | CancelWorkoutReq int
  | AddExerciseReq int int int
  | RemoveExerciseReq int int
  | UpdateExerciseNotesReq int int string
  | UpdateWorkoutNotesReq int string
  | AddSetReq int int ExerciseSetCreate
  | UpdateSetReq int int int ExerciseSetUpdate
  | DeleteSetReq int int int

text \<open>Modelled from the spec: the dispatch of a request of the HTTP interface to its
  operation, in the absent backend.\<close>

definition handle :: "int \<Rightarrow> string \<Rightarrow> request \<Rightarrow> engine \<Rightarrow> failure + engine \<times> reply" where
  "handle user now rq e =
     (case rq of
        StartWorkoutReq name templateId \<Rightarrow> srvStartWorkout user now name templateId e
      | CompleteWorkoutReq w \<Rightarrow> srvCompleteWorkout user now w e
      | CancelWorkoutReq w \<Rightarrow> srvCancelWorkout user w e
      | AddExerciseReq w x i \<Rightarrow> srvAddExercise user w x i e
      | RemoveExerciseReq w x \<Rightarrow> srvRemoveExercise user w x e
      | UpdateExerciseNotesReq w x t \<Rightarrow> srvUpdateExerciseNotes user w x t e
      | UpdateWorkoutNotesReq w t \<Rightarrow> srvUpdateWorkoutNotes user w t e
      | AddSetReq w x d \<Rightarrow> srvAddSet user now w x d e
      | UpdateSetReq w x s d \<Rightarrow> srvUpdateSet user now w x s d e
      | DeleteSetReq w x s \<Rightarrow> srvDeleteSet user w x s e)"

text \<open>The store after a request: a failing request changes nothing.\<close>

definition exec :: "engine \<Rightarrow> int \<times> string \<times> request \<Rightarrow> engine" where
  "exec e x =
     (case handle (fst x) (fst (snd x)) (snd (snd x)) e of
        Inl f \<Rightarrow> e
      | Inr r \<Rightarrow> fst r)"

definition run :: "engine \<Rightarrow> (int \<times> string \<times> request) list \<Rightarrow> engine" where
  "run e xs = foldl exec e xs"

text \<open>The workout a request is addressed to (starting a workout addresses none).\<close>

definition targetOf :: "request \<Rightarrow> int option" where
  "targetOf rq =
     (case rq of
        StartWorkoutReq name templateId \<Rightarrow> None
      | CompleteWorkoutReq w \<Rightarrow> Some w
      | CancelWorkoutReq w \<Rightarrow> Some w
      | AddExerciseReq w x i \<Rightarrow> Some w
      | RemoveExerciseReq w x \<Rightarrow> Some w
      | UpdateExerciseNotesReq w x t \<Rightarrow> Some w
      | UpdateWorkoutNotesReq w t \<Rightarrow> Some w
      | AddSetReq w x d \<Rightarrow> Some w
      | UpdateSetReq w x s d \<Rightarrow> Some w
      | DeleteSetReq w x s \<Rightarrow> Some w)"

definition emptyEngine :: "TemplateRow list \<Rightarrow> Exercise list \<Rightarrow> engine" where
  "emptyEngine ts cat = \<lparr>workouts = [], templates = ts, catalog = cat, nextRowId = 1\<rparr>"

text \<open>The workouts the client cache holds: the single nullable field.\<close>

definition cachedWorkouts :: "ctx \<Rightarrow> Workout list" where
  "cachedWorkouts c = (case activeWorkout c of None \<Rightarrow> [] | Some w \<Rightarrow> [w])"

section \<open>Views of the cached graph\<close>

text \<open>The exercises of a workout and the sets of an exercise as the components read
  them (\<open>workout_exercises || []\<close>, \<open>sets || []\<close>).\<close>

definition exercisesOf :: "Workout \<Rightarrow> WorkoutExercise list" where
  "exercisesOf w = orEmpty (workout_exercises w)"

definition setsOf :: "WorkoutExercise \<Rightarrow> ExerciseSet list" where
  "setsOf we = orEmpty (sets we)"

section \<open>Example data\<close>

text \<open>The scenario of the specification: a workout named Push Day, the exercise with
  id 5, a set of 5 repetitions at 80; and two services, one that accepts every request
  and one that rejects every request with a 409.\<close>

definition benchPress :: Exercise where
  "benchPress =
     \<lparr>e_id = 5, e_name = ''Bench Press'', e_description = None, exercise_type = WEIGHT_BASED,
      muscle_group = Some ''Chest'', equipment = Some ''Barbell'', instructions = None,
      is_active = True, e_created_at = ''2025-01-01T00:00:00'', e_updated_at = ''2025-01-01T00:00:00''\<rparr>"

definition retiredPlank :: Exercise where
  "retiredPlank =
     \<lparr>e_id = 6, e_name = ''Plank'', e_description = None, exercise_type = TIME_BASED,
      muscle_group = Some ''Core'', equipment = None, instructions = None,
      is_active = False, e_created_at = ''2025-01-01T00:00:00'', e_updated_at = ''2025-01-01T00:00:00''\<rparr>"

definition setOne :: ExerciseSet where
  "setOne =
     \<lparr>s_id = 11, workout_exercise_id = 7, set_number = 1, reps = Some 5, weight = Some 80,
      duration = None, rest_duration = None, s_notes = None, completed = False,
      s_created_at = ''2025-01-02T10:01:00'', s_updated_at = ''2025-01-02T10:01:00''\<rparr>"

definition setTwo :: ExerciseSet where
  "setTwo = setOne\<lparr>s_id := 12, set_number := 2\<rparr>"

definition benchEntry :: WorkoutExercise where
  "benchEntry =
     \<lparr>we_id = 7, workout_id = 3, exercise_id = 5, exercise = benchPress, order_index = 1,
      we_notes = None, sets = Some []\<rparr>"

definition blankWorkout :: Workout where
  "blankWorkout =
     \<lparr>w_id = 3, user_id = 1, w_name = Some ''Push Day'', started_at = ''2025-01-02T10:00:00'',
      completed_at = None, w_notes = None, template_id = None, workout_exercises = Some []\<rparr>"

definition pushDay :: Workout where
  "pushDay = blankWorkout\<lparr>workout_exercises := Some [benchEntry\<lparr>sets := Some [setOne, setTwo]\<rparr>]\<rparr>"

definition bareWorkout :: Workout where
  "bareWorkout = blankWorkout\<lparr>workout_exercises := None\<rparr>"

definition conflict :: err where
  "conflict =
     \<lparr>response_detail = Some (DetailString ''Workout is already completed''),
      err_message = Some ''Request failed with status code 409''\<rparr>"

definition okService :: service where
  "okService =
     \<lparr>svc_createWorkout = (\<lambda>d. Inr blankWorkout),
      svc_createWorkoutFromTemplate = (\<lambda>t d. Inr blankWorkout),
      svc_getActiveWorkout = Inr None,
      svc_getWorkout = (\<lambda>w. Inr blankWorkout),
      svc_completeWorkout = (\<lambda>w. Inr (blankWorkout\<lparr>completed_at := Some ''2025-01-02T11:00:00''\<rparr>)),
      svc_cancelWorkout = (\<lambda>w. Inr ()),
      svc_updateWorkoutNotes = (\<lambda>w n. Inr (blankWorkout\<lparr>w_notes := Some n\<rparr>)),
      svc_addExerciseToWorkout = (\<lambda>w d. Inr benchEntry),
      svc_removeExerciseFromWorkout = (\<lambda>w x. Inr ()),
      svc_updateExerciseNotes = (\<lambda>w x n. Inr (benchEntry\<lparr>we_notes := Some n\<rparr>)),
      svc_addSetToExercise = (\<lambda>w x d. Inr setOne),
      svc_updateExerciseSet = (\<lambda>w x s d. Inr (setOne\<lparr>completed := True\<rparr>)),
      svc_deleteExerciseSet = (\<lambda>w x s. Inr ())\<rparr>"

definition downService :: service where
  "downService =
     \<lparr>svc_createWorkout = (\<lambda>d. Inl conflict),
      svc_createWorkoutFromTemplate = (\<lambda>t d. Inl conflict),
      svc_getActiveWorkout = Inl conflict,
      svc_getWorkout = (\<lambda>w. Inl conflict),
      svc_completeWorkout = (\<lambda>w. Inl conflict),
      svc_cancelWorkout = (\<lambda>w. Inl conflict),
      svc_updateWorkoutNotes = (\<lambda>w n. Inl conflict),
      svc_addExerciseToWorkout = (\<lambda>w d. Inl conflict),
      svc_removeExerciseFromWorkout = (\<lambda>w x. Inl conflict),
      svc_updateExerciseNotes = (\<lambda>w x n. Inl conflict),
      svc_addSetToExercise = (\<lambda>w x d. Inl conflict),
      svc_updateExerciseSet = (\<lambda>w x s d. Inl conflict),
      svc_deleteExerciseSet = (\<lambda>w x s. Inl conflict)\<rparr>"





definition firstSet :: ExerciseSetCreate where
  "firstSet =
     \<lparr>sc_set_number = 1, sc_reps = None, sc_weight = None, sc_duration = None,
      sc_rest_duration = None, sc_notes = None, sc_completed = Some False\<rparr>"

definition addBench :: WorkoutExerciseCreate where
  "addBench = \<lparr>wec_exercise_id = 5, wec_order_index = 1, wec_notes = None\<rparr>"

text \<open>The session: start a workout, add an exercise, add a set.\<close>

definition started :: ctx where
  "started = commit (startWorkout okService \<lparr>wc_name = Some ''Push Day'', wc_template_id = None, wc_notes = None\<rparr> initialCtx)"

definition withExercise :: ctx where
  "withExercise = commit (addExerciseToWorkout okService addBench started)"

definition withSet :: ctx where
  "withSet = commit (addSet okService 7 firstSet withExercise)"


text \<open>The provider holding a given workout, otherwise as after mounting.\<close>

definition cached :: "Workout \<Rightarrow> ctx" where
  "cached w = initialCtx\<lparr>activeWorkout := Some w\<rparr>"

definition markCompleted :: ExerciseSetUpdate where
  "markCompleted =
     \<lparr>su_reps = None, su_weight = None, su_duration = None, su_rest_duration = None,
      su_notes = None, su_completed = Some True\<rparr>"

text \<open>A store with one template of two entries, and the same store after user 1 has
  started a blank workout and after that workout has been completed.\<close>

definition pushTemplate :: TemplateRow where
  "pushTemplate =
     \<lparr>tr_id = 9, tr_name = ''Push'',
      tr_entries =
        [\<lparr>tn_exercise_id = 5, tn_order_index = 1, tn_suggested_sets = Some 3,
          tn_suggested_reps = Some 5, tn_suggested_weight = Some 80,
          tn_suggested_duration = None\<rparr>,
         \<lparr>tn_exercise_id = 6, tn_order_index = 4, tn_suggested_sets = Some 2,
          tn_suggested_reps = None, tn_suggested_weight = None,
          tn_suggested_duration = Some 60\<rparr>]\<rparr>"

definition gym :: engine where
  "gym = emptyEngine [pushTemplate] [benchPress, retiredPlank]"

definition gymStarted :: engine where
  "gymStarted = exec gym (1, ''2025-01-02T10:00:00'', StartWorkoutReq (Some ''Push Day'') None)"

definition gymDone :: engine where
  "gymDone = exec gymStarted (1, ''2025-01-02T11:00:00'', CompleteWorkoutReq 1)"

definition doneRow :: WorkoutRow where
  "doneRow =
     \<lparr>wr_id = 1, wr_owner = 1, wr_name = Some ''Push Day'', wr_started_at = ''2025-01-02T10:00:00'',
      wr_completed_at = Some ''2025-01-02T11:00:00'', wr_notes = None, wr_template = None,
      wr_exercises = []\<rparr>"

text \<open>The selector opened over a catalog with one active and one inactive exercise,
  while a blank workout is cached.\<close>

definition opened :: "selector \<times> ctx" where
  "opened =
     selectorRun (\<lambda>s. s) (initialSelector, cached blankWorkout)
       [Open (Inr [benchPress, retiredPlank])]"

section \<open>The client cache: guards, failures and merges\<close>

text \<open>
  C9. With no active workout cached, \<open>completeWorkout\<close>, \<open>cancelWorkout\<close>,
  \<open>updateWorkoutNotes\<close>, \<open>removeExerciseFromWorkout\<close>, \<open>updateExerciseNotes\<close>,
  \<open>addSet\<close>, \<open>updateSet\<close> and \<open>deleteSet\<close> return at once: no service request is sent,
  nothing is thrown and the state is the state before. \<open>addExerciseToWorkout\<close> instead
  throws the error \<open>No active workout found\<close> (it too sends no request and leaves the
  state alone).
\<close>

theorem no_active_workout_guards:
  "activeWorkout c = None \<Longrightarrow>
     completeWorkout svc c = \<lparr>after = c, thrown = None, calls = []\<rparr> \<and>
     cancelWorkout svc c = \<lparr>after = c, thrown = None, calls = []\<rparr> \<and>
     updateWorkoutNotes svc remark c = \<lparr>after = c, thrown = None, calls = []\<rparr> \<and>
     removeExerciseFromWorkout svc weId c = \<lparr>after = c, thrown = None, calls = []\<rparr> \<and>
     updateExerciseNotes svc weId remark c = \<lparr>after = c, thrown = None, calls = []\<rparr> \<and>
     addSet svc weId setData c = \<lparr>after = c, thrown = None, calls = []\<rparr> \<and>
     updateSet svc weId setId upd c = \<lparr>after = c, thrown = None, calls = []\<rparr> \<and>
     deleteSet svc weId setId c = \<lparr>after = c, thrown = None, calls = []\<rparr> \<and>
     addExerciseToWorkout svc exerciseData c =
       \<lparr>after = c, thrown = Some (newError ''No active workout found''), calls = []\<rparr>"
  by (simp add: completeWorkout_def cancelWorkout_def updateWorkoutNotes_def
      removeExerciseFromWorkout_def updateExerciseNotes_def addSet_def updateSet_def
      deleteSet_def addExerciseToWorkout_def)

text \<open>The guards at the freshly mounted provider, whatever the service would answer.\<close>

theorem no_active_workout_guards_witness:
  "activeWorkout initialCtx = None \<and>
   completeWorkout okService initialCtx = \<lparr>after = initialCtx, thrown = None, calls = []\<rparr> \<and>
   cancelWorkout okService initialCtx = \<lparr>after = initialCtx, thrown = None, calls = []\<rparr> \<and>
   updateWorkoutNotes okService ''easy'' initialCtx = \<lparr>after = initialCtx, thrown = None, calls = []\<rparr> \<and>
   removeExerciseFromWorkout okService 7 initialCtx = \<lparr>after = initialCtx, thrown = None, calls = []\<rparr> \<and>
   updateExerciseNotes okService 7 ''easy'' initialCtx = \<lparr>after = initialCtx, thrown = None, calls = []\<rparr> \<and>
   addSet okService 7 firstSet initialCtx = \<lparr>after = initialCtx, thrown = None, calls = []\<rparr> \<and>
   updateSet okService 7 11 markCompleted initialCtx = \<lparr>after = initialCtx, thrown = None, calls = []\<rparr> \<and>
   deleteSet okService 7 11 initialCtx = \<lparr>after = initialCtx, thrown = None, calls = []\<rparr> \<and>
   addExerciseToWorkout okService addBench initialCtx =
     \<lparr>after = initialCtx, thrown = Some (newError ''No active workout found''), calls = []\<rparr>"
proof -
  have h: "activeWorkout initialCtx = None"
    by (simp add: initialCtx_def)
  show ?thesis
    using h no_active_workout_guards [OF h] by simp
qed

text \<open>
  C8. \<open>completeSet(workoutExerciseId, setId)\<close> is
  \<open>updateSet(workoutExerciseId, setId, {completed: true})\<close>: for every service and every
  state the two have the same outcome, that is, they leave the same state (the same
  cache transformation), throw the same value and send the same requests; with a
  workout cached that is the one update request whose body carries \<open>completed: true\<close>
  and no other field.
\<close>

theorem completeSet_is_updateSet:
  "completeSet svc weId setId c = updateSet svc weId setId markCompleted c \<and>
   after (completeSet svc weId setId c) = after (updateSet svc weId setId markCompleted c) \<and>
   thrown (completeSet svc weId setId c) = thrown (updateSet svc weId setId markCompleted c) \<and>
   calls (completeSet svc weId setId c) = calls (updateSet svc weId setId markCompleted c) \<and>
   su_completed markCompleted = Some True \<and> su_reps markCompleted = None \<and>
   su_weight markCompleted = None \<and> su_duration markCompleted = None \<and>
   su_rest_duration markCompleted = None \<and> su_notes markCompleted = None \<and>
   (activeWorkout c = Some aw \<longrightarrow>
      calls (completeSet svc weId setId c) = [UpdateExerciseSet (w_id aw) weId setId markCompleted])"
proof -
  have same: "completeSet svc weId setId c = updateSet svc weId setId markCompleted c"
    by (simp add: completeSet_def markCompleted_def)
  have sent: "calls (updateSet svc weId setId markCompleted c) =
      [UpdateExerciseSet (w_id aw) weId setId markCompleted]" if "activeWorkout c = Some aw"
    using that
    by (cases "svc_updateExerciseSet svc (w_id aw) weId setId markCompleted")
       (simp_all add: updateSet_def)
  show ?thesis
    using same sent by (simp add: markCompleted_def)
qed

text \<open>Completing set 11 of Push Day: the same outcome as the update, and one request.\<close>

theorem completeSet_is_updateSet_witness:
  "activeWorkout (cached pushDay) = Some pushDay \<and>
   completeSet okService 7 11 (cached pushDay) = updateSet okService 7 11 markCompleted (cached pushDay) \<and>
   completeSet downService 7 11 (cached pushDay) = updateSet downService 7 11 markCompleted (cached pushDay) \<and>
   thrown (completeSet downService 7 11 (cached pushDay)) = Some conflict \<and>
   calls (completeSet okService 7 11 (cached pushDay)) = [UpdateExerciseSet 3 7 11 markCompleted]"
proof -
  have h: "activeWorkout (cached pushDay) = Some pushDay"
    by (simp add: cached_def)
  have w: "w_id pushDay = 3"
    by (simp add: pushDay_def blankWorkout_def)
  have f: "thrown (updateSet downService 7 11 markCompleted (cached pushDay)) = Some conflict"
    by (simp add: updateSet_def cached_def downService_def)
  have a: "completeSet okService 7 11 (cached pushDay) =
      updateSet okService 7 11 markCompleted (cached pushDay)"
    using completeSet_is_updateSet [of okService 7 11 "cached pushDay" pushDay]
    by blast
  have "calls (completeSet okService 7 11 (cached pushDay)) =
      [UpdateExerciseSet (w_id pushDay) 7 11 markCompleted]"
    using h completeSet_is_updateSet [of okService 7 11 "cached pushDay" pushDay]
    by blast
  then have b: "calls (completeSet okService 7 11 (cached pushDay)) =
      [UpdateExerciseSet 3 7 11 markCompleted]"
    by (simp only: w)
  have d: "completeSet downService 7 11 (cached pushDay) =
      updateSet downService 7 11 markCompleted (cached pushDay)"
    using completeSet_is_updateSet [of downService 7 11 "cached pushDay" pushDay]
    by blast
  have t: "thrown (completeSet downService 7 11 (cached pushDay)) = Some conflict"
    by (simp only: d f)
  from h a d t b show ?thesis
    by blast
qed

text \<open>
  What holds when the service request of \<open>addSet\<close>, \<open>updateSet\<close>, \<open>deleteSet\<close>,
  \<open>addExerciseToWorkout\<close>, \<open>removeExerciseFromWorkout\<close> or \<open>updateExerciseNotes\<close> is
  rejected: the cached workout after the call is the cached workout before it (the
  same object: no merge is applied), and the operation throws. The provider's \<open>error\<close>
  becomes the value computed from the rejection: the string of \<open>handleError\<close> in five
  of them, the first truthy operand, of whatever type, in \<open>addExerciseToWorkout\<close>.
\<close>

lemma failed_call_keeps_graph:
  assumes "activeWorkout c = Some aw"
  shows
    "(svc_addSetToExercise svc (w_id aw) weId setData = Inl e \<longrightarrow>
        activeWorkout (after (addSet svc weId setData c)) = Some aw \<and>
        awRef (after (addSet svc weId setData c)) = awRef c \<and>
        error (after (addSet svc weId setData c)) =
          Some (DetailString (errorMessage e ''Failed to add set'')) \<and>
        thrown (addSet svc weId setData c) = Some e) \<and>
     (svc_updateExerciseSet svc (w_id aw) weId setId upd = Inl e \<longrightarrow>
        activeWorkout (after (updateSet svc weId setId upd c)) = Some aw \<and>
        awRef (after (updateSet svc weId setId upd c)) = awRef c \<and>
        error (after (updateSet svc weId setId upd c)) =
          Some (DetailString (errorMessage e ''Failed to update set'')) \<and>
        thrown (updateSet svc weId setId upd c) = Some e) \<and>
     (svc_deleteExerciseSet svc (w_id aw) weId setId = Inl e \<longrightarrow>
        activeWorkout (after (deleteSet svc weId setId c)) = Some aw \<and>
        awRef (after (deleteSet svc weId setId c)) = awRef c \<and>
        error (after (deleteSet svc weId setId c)) =
          Some (DetailString (errorMessage e ''Failed to delete set'')) \<and>
        thrown (deleteSet svc weId setId c) = Some e) \<and>
     (svc_addExerciseToWorkout svc (w_id aw) exerciseData = Inl e \<longrightarrow>
        activeWorkout (after (addExerciseToWorkout svc exerciseData c)) = Some aw \<and>
        awRef (after (addExerciseToWorkout svc exerciseData c)) = awRef c \<and>
        error (after (addExerciseToWorkout svc exerciseData c)) = Some (addExerciseError e) \<and>
        thrown (addExerciseToWorkout svc exerciseData c) =
          Some (newError (detailToString (addExerciseError e)))) \<and>
     (svc_removeExerciseFromWorkout svc (w_id aw) weId = Inl e \<longrightarrow>
        activeWorkout (after (removeExerciseFromWorkout svc weId c)) = Some aw \<and>
        awRef (after (removeExerciseFromWorkout svc weId c)) = awRef c \<and>
        error (after (removeExerciseFromWorkout svc weId c)) =
          Some (DetailString (errorMessage e ''Failed to remove exercise from workout'')) \<and>
        thrown (removeExerciseFromWorkout svc weId c) = Some e) \<and>
     (svc_updateExerciseNotes svc (w_id aw) weId remark = Inl e \<longrightarrow>
        activeWorkout (after (updateExerciseNotes svc weId remark c)) = Some aw \<and>
        awRef (after (updateExerciseNotes svc weId remark c)) = awRef c \<and>
        error (after (updateExerciseNotes svc weId remark c)) =
          Some (DetailString (errorMessage e ''Failed to update exercise notes'')) \<and>
        thrown (updateExerciseNotes svc weId remark c) = Some e)"
  using assms
  by (simp add: addSet_def updateSet_def deleteSet_def addExerciseToWorkout_def
      removeExerciseFromWorkout_def updateExerciseNotes_def handleError_def)


text \<open>
  C4, as the code has it. A successful \<open>updateSet\<close> sends exactly one request, the
  update itself (no workout is fetched again), and throws nothing. In the cached
  workout every field but \<open>workout_exercises\<close> keeps its value; the list of exercises
  keeps its length; an exercise whose id is not \<open>workoutExerciseId\<close> is unchanged; in
  an exercise whose id is \<open>workoutExerciseId\<close> every field but \<open>sets\<close> keeps its value,
  the list of sets keeps its length, each set whose id is \<open>setId\<close> is replaced by the
  server's set and every other set is unchanged. An absent \<open>workout_exercises\<close> list,
  and an absent \<open>sets\<close> list of an exercise whose id is \<open>workoutExerciseId\<close>, is
  stored as the empty list.
\<close>

theorem updateSet_merges_by_id:
  assumes "activeWorkout c = Some aw"
    and "svc_updateExerciseSet svc (w_id aw) weId setId upd = Inr updatedSet"
  shows "\<exists>aw'. activeWorkout (after (updateSet svc weId setId upd c)) = Some aw' \<and>
      calls (updateSet svc weId setId upd c) = [UpdateExerciseSet (w_id aw) weId setId upd] \<and>
      thrown (updateSet svc weId setId upd c) = None \<and>
      aw'\<lparr>workout_exercises := workout_exercises aw\<rparr> = aw \<and>
      workout_exercises aw' \<noteq> None \<and>
      length (exercisesOf aw') = length (exercisesOf aw) \<and>
      (\<forall>i < length (exercisesOf aw).
         (we_id (exercisesOf aw ! i) \<noteq> weId \<longrightarrow> exercisesOf aw' ! i = exercisesOf aw ! i) \<and>
         (we_id (exercisesOf aw ! i) = weId \<longrightarrow>
            (exercisesOf aw' ! i)\<lparr>sets := sets (exercisesOf aw ! i)\<rparr> = exercisesOf aw ! i \<and>
            sets (exercisesOf aw' ! i) \<noteq> None \<and>
            length (setsOf (exercisesOf aw' ! i)) = length (setsOf (exercisesOf aw ! i)) \<and>
            (\<forall>j < length (setsOf (exercisesOf aw ! i)).
               setsOf (exercisesOf aw' ! i) ! j =
                 (if s_id (setsOf (exercisesOf aw ! i) ! j) = setId then updatedSet
                  else setsOf (exercisesOf aw ! i) ! j))))"
  using assms
  by (simp add: updateSet_def updateActiveWorkout_def exercisesOf_def setsOf_def orEmpty_def)

text \<open>Marking set 11 of Push Day completed: the first set is the server's, the second
  set and the rest of the workout are as before.\<close>

theorem updateSet_merges_by_id_witness:
  "activeWorkout (cached pushDay) = Some pushDay \<and>
   svc_updateExerciseSet okService (w_id pushDay) 7 11 markCompleted =
     Inr (setOne\<lparr>completed := True\<rparr>) \<and>
   activeWorkout (after (updateSet okService 7 11 markCompleted (cached pushDay))) =
     Some (blankWorkout\<lparr>workout_exercises :=
       Some [benchEntry\<lparr>sets := Some [setOne\<lparr>completed := True\<rparr>, setTwo]\<rparr>]\<rparr>) \<and>
   calls (updateSet okService 7 11 markCompleted (cached pushDay)) =
     [UpdateExerciseSet 3 7 11 markCompleted]"
proof -
  have h: "activeWorkout (cached pushDay) = Some pushDay"
    by (simp add: cached_def)
  have r: "svc_updateExerciseSet okService (w_id pushDay) 7 11 markCompleted =
      Inr (setOne\<lparr>completed := True\<rparr>)"
    by (simp add: okService_def)
  show ?thesis
    using h r updateSet_merges_by_id [OF h r]
    by (simp add: updateSet_def updateActiveWorkout_def cached_def okService_def pushDay_def
        blankWorkout_def orEmpty_def benchEntry_def setOne_def setTwo_def)
qed

text \<open>
  C4, as stated, fails where the cached workout has no \<open>workout_exercises\<close> list: the
  cache holds no set with the given id, so nothing is to be replaced, yet the workout
  after the call is not the workout before it: its \<open>workout_exercises\<close> is now \<open>[]\<close>.
\<close>

theorem updateSet_changes_absent_list:
  "activeWorkout (cached bareWorkout) = Some bareWorkout \<and>
   workout_exercises bareWorkout = None \<and>
   svc_updateExerciseSet okService (w_id bareWorkout) 7 11 markCompleted =
     Inr (setOne\<lparr>completed := True\<rparr>) \<and>
   activeWorkout (after (updateSet okService 7 11 markCompleted (cached bareWorkout))) =
     Some (bareWorkout\<lparr>workout_exercises := Some []\<rparr>) \<and>
   activeWorkout (after (updateSet okService 7 11 markCompleted (cached bareWorkout))) \<noteq>
     Some bareWorkout"
  by (simp add: updateSet_def updateActiveWorkout_def cached_def okService_def
      bareWorkout_def blankWorkout_def orEmpty_def)

section \<open>The workout timer\<close>

text \<open>
  C7. The session start workout, add exercise, add set, each followed by the commit of
  its render. After the first two steps the interval with id 1 is live. The third
  commit runs the cleanup of the second, whose \<open>stopTimer\<close> saw \<open>timerInterval = 1\<close>: it
  clears the interval; the effect's own \<open>startTimer\<close> also sees \<open>timerInterval = 1\<close> and
  returns without starting another. The workout is still active and uncompleted, and
  no interval is left to tick.
\<close>

theorem timer_stops_while_active:
  "timerWanted withExercise \<and> intervals withExercise = [1] \<and>
   tick 1 withExercise = Some (withExercise\<lparr>workoutTimer := Seconds 1\<rparr>) \<and>
   timerWanted withSet \<and> intervals withSet = [] \<and> timerInterval withSet = None \<and>
   tick 1 withSet = None"
  by (simp add: withSet_def withExercise_def started_def commit_def timerEffect_def
      startWorkout_def addExerciseToWorkout_def addSet_def okService_def initialCtx_def
      setActiveWorkout_def updateActiveWorkout_def startTimer_def stopTimer_def
      truthyInterval_def timerWanted_def truthyString_def blankWorkout_def tick_def plusOne_def
      Let_def)

section \<open>The exercise selector\<close>

text \<open>
  C6. Whenever \<open>handleAddExercise\<close> runs with an active workout cached, the one request
  it sends is the add-exercise request whose \<open>order_index\<close> is the number of exercises
  in the cached workout plus 1, whatever the cached list is (absent counts as empty).
\<close>

theorem handleAddExercise_order_index:
  assumes "activeWorkout c = Some aw"
  shows "sel_calls (handleAddExercise svc ex sel c) =
     [AddExerciseToWorkout (w_id aw)
        \<lparr>wec_exercise_id = e_id ex,
         wec_order_index = int (length (exercisesOf aw)) + 1,
         wec_notes = None\<rparr>]"
  using assms
  by (cases "svc_addExerciseToWorkout svc (w_id aw)
        \<lparr>wec_exercise_id = e_id ex, wec_order_index = int (length (exercisesOf aw)) + 1,
         wec_notes = None\<rparr>")
     (simp_all add: handleAddExercise_def addExerciseToWorkout_def exercisesOf_def Let_def)

text \<open>With Push Day cached, which has one exercise, the bench press is added at
  index 2.\<close>

theorem handleAddExercise_order_index_witness:
  "activeWorkout (cached pushDay) = Some pushDay \<and>
   length (exercisesOf pushDay) = 1 \<and>
   sel_calls (handleAddExercise okService benchPress initialSelector (cached pushDay)) =
     [AddExerciseToWorkout 3 \<lparr>wec_exercise_id = 5, wec_order_index = 2, wec_notes = None\<rparr>]"
proof -
  have h: "activeWorkout (cached pushDay) = Some pushDay"
    by (simp add: cached_def)
  show ?thesis
    using h handleAddExercise_order_index [OF h, of okService benchPress initialSelector]
    by (simp add: exercisesOf_def orEmpty_def pushDay_def blankWorkout_def benchPress_def)
qed

lemma step_keeps_loaded_active:
  assumes "list_all is_active (exercises (fst st))"
  shows "list_all is_active (exercises (fst (selectorStep toLowerCase st ev)))"
proof (cases ev)
  case (Open answer)
  then show ?thesis using assms
    by (cases answer) (simp_all add: selectorStep_def loadExercises_def list_all_iff)
next
  case (ClickAdd i svc)
  then show ?thesis using assms
    by (auto simp: selectorStep_def clickAdd_def handleAddExercise_def Let_def split: option.splits)
qed (use assms in \<open>simp_all add: selectorStep_def handleClose_def\<close>)

lemma run_keeps_loaded_active:
  assumes "list_all is_active (exercises (fst st))"
  shows "list_all is_active (exercises (fst (selectorRun toLowerCase st evs)))"
  using assms
proof (induction evs arbitrary: st)
  case Nil
  then show ?case by (simp add: selectorRun_def)
next
  case (Cons ev evs)
  from Cons.prems have "list_all is_active (exercises (fst (selectorStep toLowerCase st ev)))"
    by (rule step_keeps_loaded_active)
  then have "list_all is_active
      (exercises (fst (selectorRun toLowerCase (selectorStep toLowerCase st ev) evs)))"
    by (rule Cons.IH)
  then show ?case by (simp add: selectorRun_def)
qed

text \<open>
  C10. In every state the selector can reach, every loaded exercise, hence every
  exercise it lists and every exercise it offers an \<open>Add\<close> button for, has
  \<open>is_active = true\<close>; and pressing \<open>Add\<close> runs \<open>handleAddExercise\<close> on one of these
  active exercises, so no inactive exercise is added through the selector.
\<close>

theorem selector_offers_only_active:
  "list_all is_active
     (offered toLowerCase (fst (selectorRun toLowerCase (initialSelector, c) evs))
        (snd (selectorRun toLowerCase (initialSelector, c) evs))) \<and>
   list_all is_active
     (filteredExercises toLowerCase (fst (selectorRun toLowerCase (initialSelector, c) evs))) \<and>
   list_all is_active (exercises (fst (selectorRun toLowerCase (initialSelector, c) evs))) \<and>
   (clickAdd toLowerCase i svc (selectorRun toLowerCase (initialSelector, c) evs) = Some r \<longrightarrow>
      (\<exists>ex. is_active ex \<and>
         r = handleAddExercise svc ex (fst (selectorRun toLowerCase (initialSelector, c) evs))
               (snd (selectorRun toLowerCase (initialSelector, c) evs))))"
proof -
  let ?st = "selectorRun toLowerCase (initialSelector, c) evs"
  have "list_all is_active (exercises (fst (initialSelector, c)))"
    by (simp add: initialSelector_def)
  then have loaded: "list_all is_active (exercises (fst ?st))"
    by (rule run_keeps_loaded_active)
  then have listed: "list_all is_active (filteredExercises toLowerCase (fst ?st))"
    by (auto simp: filteredExercises_def list_all_iff)
  then have shown: "list_all is_active (offered toLowerCase (fst ?st) (snd ?st))"
    by (auto simp: offered_def list_all_iff)
  have "\<exists>ex. is_active ex \<and> r = handleAddExercise svc ex (fst ?st) (snd ?st)"
    if "clickAdd toLowerCase i svc ?st = Some r"
  proof -
    from that have i: "i < length (offered toLowerCase (fst ?st) (snd ?st))"
      and r: "r = handleAddExercise svc (offered toLowerCase (fst ?st) (snd ?st) ! i) (fst ?st) (snd ?st)"
      by (auto simp: clickAdd_def split: if_splits)
    from shown i have "is_active (offered toLowerCase (fst ?st) (snd ?st) ! i)"
      by (simp add: list_all_length)
    with r show ?thesis by blast
  qed
  with loaded listed shown show ?thesis by blast
qed

text \<open>The catalog holds the active bench press and the inactive plank: only the bench
  press is offered, and the one button adds it.\<close>

theorem selector_offers_only_active_witness:
  "is_active benchPress \<and> \<not> is_active retiredPlank \<and>
   offered (\<lambda>s. s) (fst opened) (snd opened) = [benchPress] \<and>
   list_all is_active (offered (\<lambda>s. s) (fst opened) (snd opened)) \<and>
   clickAdd (\<lambda>s. s) 0 okService opened =
     Some (handleAddExercise okService benchPress (fst opened) (snd opened)) \<and>
   clickAdd (\<lambda>s. s) 1 okService opened = None"
proof -
  have o: "offered (\<lambda>s. s) (fst opened) (snd opened) = [benchPress]"
    by (simp add: opened_def selectorRun_def selectorStep_def loadExercises_def
        initialSelector_def offered_def filteredExercises_def matchesFilters_def
        isExerciseInWorkout_def cached_def initialCtx_def blankWorkout_def orEmpty_def
        benchPress_def retiredPlank_def)
  have a: "is_active benchPress \<and> \<not> is_active retiredPlank"
    by (simp add: benchPress_def retiredPlank_def)
  show ?thesis
    using o a
      selector_offers_only_active [of "\<lambda>s. s" "cached blankWorkout"
        "[Open (Inr [benchPress, retiredPlank])]" 0 okService
        "handleAddExercise okService benchPress (fst opened) (snd opened)"]
    by (simp add: clickAdd_def opened_def)
qed

section \<open>The session engine: lifecycle rules\<close>

lemma length_filter_map_le:
  "(\<And>x. P (f x) \<Longrightarrow> P x) \<Longrightarrow> length (filter P (map f xs)) \<le> length (filter P xs)"
  by (induction xs) auto

lemma length_filter_mono:
  "(\<And>x. P x \<Longrightarrow> Q x) \<Longrightarrow> length (filter P xs) \<le> length (filter Q xs)"
  by (induction xs) auto

lemma active_mapTarget_le:
  assumes "\<And>x. wr_owner (f x) = wr_owner x"
    and "\<And>x. wr_completed_at (f x) = None \<Longrightarrow> wr_completed_at x = None"
  shows "length (activeWorkoutsOf u (mapTarget user wid f e)) \<le> length (activeWorkoutsOf u e)"
proof -
  have "length (filter (\<lambda>w. wr_owner w = u \<and> wr_completed_at w = None)
          (map (\<lambda>w. if isTarget user wid w then f w else w) (workouts e)))
      \<le> length (filter (\<lambda>w. wr_owner w = u \<and> wr_completed_at w = None) (workouts e))"
    by (rule length_filter_map_le) (use assms in \<open>auto split: if_splits\<close>)
  then show ?thesis
    unfolding activeWorkoutsOf_def mapTarget_def by simp
qed

lemma active_mapTarget_same:
  assumes "\<And>x. wr_owner (f x) = wr_owner x"
    and "\<And>x. wr_completed_at (f x) = wr_completed_at x"
  shows "length (activeWorkoutsOf u (mapTarget user wid f e)) \<le> length (activeWorkoutsOf u e)"
  by (rule active_mapTarget_le) (simp_all add: assms)

lemma active_nextRowId: "activeWorkoutsOf u (e\<lparr>nextRowId := k\<rparr>) = activeWorkoutsOf u e"
  by (simp add: activeWorkoutsOf_def)

lemma handle_active_le:
  assumes "handle user now rq e = Inr (e', r)" and "length (activeWorkoutsOf u e) \<le> 1"
  shows "length (activeWorkoutsOf u e') \<le> 1"
proof (cases rq)
  case (StartWorkoutReq name templateId)
  with assms show ?thesis
    by (auto simp: handle_def srvStartWorkout_def activeWorkoutsOf_def Let_def
        split: if_splits option.splits)
next
  case (CompleteWorkoutReq w)
  with assms have "e' = mapTarget user w (\<lambda>x. x\<lparr>wr_completed_at := Some now\<rparr>) e"
    by (auto simp: handle_def srvCompleteWorkout_def split: sum.splits)
  moreover have "length (activeWorkoutsOf u (mapTarget user w (\<lambda>x. x\<lparr>wr_completed_at := Some now\<rparr>) e))
      \<le> length (activeWorkoutsOf u e)"
    by (rule active_mapTarget_le) simp_all
  ultimately show ?thesis using assms(2) by simp
next
  case (CancelWorkoutReq w)
  with assms have "e' = e\<lparr>workouts := filter (\<lambda>x. \<not> isTarget user w x) (workouts e)\<rparr>"
    by (auto simp: handle_def srvCancelWorkout_def split: sum.splits)
  then have "length (activeWorkoutsOf u e') \<le> length (activeWorkoutsOf u e)"
    by (auto simp: activeWorkoutsOf_def intro!: length_filter_mono)
  then show ?thesis using assms(2) by simp
next
  case (AddExerciseReq w x i)
  with assms obtain f where "e' = (mapTarget user w f e)\<lparr>nextRowId := nextRowId e + 1\<rparr>"
    and "\<And>x. wr_owner (f x) = wr_owner x" and "\<And>x. wr_completed_at (f x) = wr_completed_at x"
    by (auto simp: handle_def srvAddExercise_def Let_def split: sum.splits if_splits)
  then have "length (activeWorkoutsOf u e') \<le> length (activeWorkoutsOf u e)"
    by (auto simp: active_nextRowId intro: active_mapTarget_same)
  then show ?thesis using assms(2) by simp
next
  case (RemoveExerciseReq w x)
  with assms obtain f where "e' = mapTarget user w f e"
    and "\<And>x. wr_owner (f x) = wr_owner x" and "\<And>x. wr_completed_at (f x) = wr_completed_at x"
    by (auto simp: handle_def srvRemoveExercise_def split: sum.splits if_splits)
  then have "length (activeWorkoutsOf u e') \<le> length (activeWorkoutsOf u e)"
    by (auto simp: active_nextRowId intro: active_mapTarget_same)
  then show ?thesis using assms(2) by simp
next
  case (UpdateExerciseNotesReq w x t)
  with assms obtain f where "e' = mapTarget user w f e"
    and "\<And>x. wr_owner (f x) = wr_owner x" and "\<And>x. wr_completed_at (f x) = wr_completed_at x"
    by (auto simp: handle_def srvUpdateExerciseNotes_def mapExercise_def split: sum.splits option.splits)
  then have "length (activeWorkoutsOf u e') \<le> length (activeWorkoutsOf u e)"
    by (auto simp: active_nextRowId intro: active_mapTarget_same)
  then show ?thesis using assms(2) by simp
next
  case (UpdateWorkoutNotesReq w t)
  with assms obtain f where "e' = mapTarget user w f e"
    and "\<And>x. wr_owner (f x) = wr_owner x" and "\<And>x. wr_completed_at (f x) = wr_completed_at x"
    by (auto simp: handle_def srvUpdateWorkoutNotes_def split: sum.splits)
  then have "length (activeWorkoutsOf u e') \<le> length (activeWorkoutsOf u e)"
    by (auto simp: active_nextRowId intro: active_mapTarget_same)
  then show ?thesis using assms(2) by simp
next
  case (AddSetReq w x d)
  with assms obtain f where "e' = (mapTarget user w f e)\<lparr>nextRowId := nextRowId e + 1\<rparr>"
    and "\<And>x. wr_owner (f x) = wr_owner x" and "\<And>x. wr_completed_at (f x) = wr_completed_at x"
    by (auto simp: handle_def srvAddSet_def mapExercise_def split: sum.splits if_splits)
  then have "length (activeWorkoutsOf u e') \<le> length (activeWorkoutsOf u e)"
    by (auto simp: active_nextRowId intro: active_mapTarget_same)
  then show ?thesis using assms(2) by simp
next
  case (UpdateSetReq w x s d)
  with assms obtain f where "e' = mapTarget user w f e"
    and "\<And>x. wr_owner (f x) = wr_owner x" and "\<And>x. wr_completed_at (f x) = wr_completed_at x"
    by (auto simp: handle_def srvUpdateSet_def mapExercise_def split: sum.splits option.splits)
  then have "length (activeWorkoutsOf u e') \<le> length (activeWorkoutsOf u e)"
    by (auto simp: active_nextRowId intro: active_mapTarget_same)
  then show ?thesis using assms(2) by simp
next
  case (DeleteSetReq w x s)
  with assms obtain f where "e' = mapTarget user w f e"
    and "\<And>x. wr_owner (f x) = wr_owner x" and "\<And>x. wr_completed_at (f x) = wr_completed_at x"
    by (auto simp: handle_def srvDeleteSet_def mapExercise_def split: sum.splits option.splits)
  then have "length (activeWorkoutsOf u e') \<le> length (activeWorkoutsOf u e)"
    by (auto simp: active_nextRowId intro: active_mapTarget_same)
  then show ?thesis using assms(2) by simp
qed

lemma exec_active_le:
  "length (activeWorkoutsOf u e) \<le> 1 \<Longrightarrow> length (activeWorkoutsOf u (exec e x)) \<le> 1"
  by (cases "handle (fst x) (fst (snd x)) (snd (snd x)) e")
     (auto simp: exec_def dest: handle_active_le)

lemma run_active_le:
  "length (activeWorkoutsOf u e) \<le> 1 \<Longrightarrow> length (activeWorkoutsOf u (run e xs)) \<le> 1"
proof (induction xs arbitrary: e)
  case Nil
  then show ?case by (simp add: run_def)
next
  case (Cons x xs)
  from Cons.prems have "length (activeWorkoutsOf u (exec e x)) \<le> 1"
    by (rule exec_active_le)
  then have "length (activeWorkoutsOf u (run (exec e x) xs)) \<le> 1"
    by (rule Cons.IH)
  then show ?case by (simp add: run_def)
qed

text \<open>
  C1. In every store reached from the empty one by any sequence of requests (starts,
  completions, cancellations and all the others), each by any user at any time, every
  user has at most one workout with \<open>completed_at = null\<close>; and the client cache holds
  at most one active workout, its \<open>activeWorkout\<close> being a single nullable field.
\<close>

theorem single_active_session:
  "length (activeWorkoutsOf u (run (emptyEngine ts cat) xs)) \<le> 1 \<and> length (cachedWorkouts c) \<le> 1"
proof
  have "length (activeWorkoutsOf u (emptyEngine ts cat)) \<le> 1"
    by (simp add: activeWorkoutsOf_def emptyEngine_def)
  then show "length (activeWorkoutsOf u (run (emptyEngine ts cat) xs)) \<le> 1"
    by (rule run_active_le)
  show "length (cachedWorkouts c) \<le> 1"
    by (simp add: cachedWorkouts_def split: option.splits)
qed

text \<open>Two starts in a row by the same user: the second is refused with \<open>CONFLICT\<close> and
  one workout is active.\<close>

theorem single_active_session_witness:
  "handle 1 ''2025-01-02T10:00:05'' (StartWorkoutReq None None) gymStarted = Inl CONFLICT \<and>
   length (activeWorkoutsOf 1
      (run gym [(1, ''2025-01-02T10:00:00'', StartWorkoutReq (Some ''Push Day'') None),
                (1, ''2025-01-02T10:00:05'', StartWorkoutReq None None)])) = 1 \<and>
   length (cachedWorkouts (cached pushDay)) = 1"
  using single_active_session [of 1 "[pushTemplate]" "[benchPress, retiredPlank]"
      "[(1, ''2025-01-02T10:00:00'', StartWorkoutReq (Some ''Push Day'') None),
        (1, ''2025-01-02T10:00:05'', StartWorkoutReq None None)]" "cached pushDay"]
  by (simp add: run_def exec_def handle_def srvStartWorkout_def activeWorkoutsOf_def
      gymStarted_def gym_def emptyEngine_def cachedWorkouts_def cached_def Let_def)

lemma completed_rejects:
  assumes "lookupWorkout u wid e = Some w" and "wr_completed_at w \<noteq> None"
    and "targetOf rq = Some wid"
  shows "handle u now rq e = Inl CONFLICT"
  using assms
  by (cases rq)
     (auto simp: handle_def srvStartWorkout_def srvCompleteWorkout_def srvCancelWorkout_def
        srvAddExercise_def srvRemoveExercise_def srvUpdateExerciseNotes_def
        srvUpdateWorkoutNotes_def srvAddSet_def srvUpdateSet_def srvDeleteSet_def
        mutable_def targetOf_def)

lemma find_map_target:
  assumes "\<And>x. P (f x) = P x"
  shows "find P (map (\<lambda>x. if P x then f x else x) xs) = map_option f (find P xs)"
  using assms by (induction xs) auto

lemma find_map_other:
  assumes "\<And>x. P (g x) = P x" and "\<And>x. P x \<Longrightarrow> g x = x"
  shows "find P (map g xs) = find P xs"
  using assms by (induction xs) auto

lemma find_filter_other:
  assumes "\<And>x. P x \<Longrightarrow> Q x"
  shows "find P (filter Q xs) = find P xs"
  using assms by (induction xs) auto

lemma find_append_Some: "find P xs = Some x \<Longrightarrow> find P (xs @ ys) = Some x"
  by (induction xs) (auto split: if_splits)

lemma lookup_mapTarget_other:
  assumes "\<not> (u' = u \<and> wid' = wid)"
    and "\<And>x. wr_id (f x) = wr_id x" and "\<And>x. wr_owner (f x) = wr_owner x"
  shows "lookupWorkout u wid (mapTarget u' wid' f e) = lookupWorkout u wid e"
  unfolding lookupWorkout_def mapTarget_def
  using assms by (auto intro!: find_map_other simp: isTarget_def)

lemma lookup_nextRowId: "lookupWorkout u wid (e\<lparr>nextRowId := k\<rparr>) = lookupWorkout u wid e"
  by (simp add: lookupWorkout_def)

lemma complete_marks:
  assumes "srvCompleteWorkout u now wid e = Inr (e1, r)"
  shows "\<exists>w. lookupWorkout u wid e1 = Some w \<and> wr_completed_at w = Some now"
proof -
  from assms obtain w0 where w0: "lookupWorkout u wid e = Some w0"
    and e1: "e1 = mapTarget u wid (\<lambda>x. x\<lparr>wr_completed_at := Some now\<rparr>) e"
    by (auto simp: srvCompleteWorkout_def mutable_def split: option.splits if_splits)
  have "find (isTarget u wid)
          (map (\<lambda>x. if isTarget u wid x then x\<lparr>wr_completed_at := Some now\<rparr> else x) (workouts e))
        = map_option (\<lambda>x. x\<lparr>wr_completed_at := Some now\<rparr>) (find (isTarget u wid) (workouts e))"
    by (rule find_map_target) (simp add: isTarget_def)
  with w0 e1 show ?thesis
    by (simp add: lookupWorkout_def mapTarget_def)
qed

lemma handle_keeps_completed:
  assumes "lookupWorkout u wid e = Some w" and "wr_completed_at w \<noteq> None"
    and "handle u' now rq e = Inr (e', r)"
  shows "lookupWorkout u wid e' = Some w"
proof (cases "targetOf rq")
  case None
  then obtain name templateId where rq: "rq = StartWorkoutReq name templateId"
    by (cases rq) (auto simp: targetOf_def)
  with assms(3) obtain nw k where "e' = e\<lparr>workouts := workouts e @ [nw], nextRowId := k\<rparr>"
    by (auto simp: handle_def srvStartWorkout_def Let_def split: if_splits option.splits)
  with assms(1) show ?thesis
    by (simp add: lookupWorkout_def find_append_Some)
next
  case (Some wid')
  have other: "\<not> (u' = u \<and> wid' = wid)"
  proof
    assume "u' = u \<and> wid' = wid"
    with assms(1,2) Some have "handle u' now rq e = Inl CONFLICT"
      by (auto intro: completed_rejects)
    with assms(3) show False by simp
  qed
  show ?thesis
  proof (cases rq)
    case (StartWorkoutReq name templateId)
    with Some show ?thesis by (simp add: targetOf_def)
  next
    case (CompleteWorkoutReq x)
    with assms(3) Some have "e' = mapTarget u' wid' (\<lambda>x. x\<lparr>wr_completed_at := Some now\<rparr>) e"
      by (auto simp: handle_def srvCompleteWorkout_def targetOf_def split: sum.splits)
    with other assms(1) show ?thesis by (simp add: lookup_mapTarget_other lookup_nextRowId)
  next
    case (CancelWorkoutReq x)
    with assms(3) Some have "e' = e\<lparr>workouts := filter (\<lambda>x. \<not> isTarget u' wid' x) (workouts e)\<rparr>"
      by (auto simp: handle_def srvCancelWorkout_def targetOf_def split: sum.splits)
    moreover have "find (isTarget u wid) (filter (\<lambda>x. \<not> isTarget u' wid' x) (workouts e))
        = find (isTarget u wid) (workouts e)"
      by (rule find_filter_other) (use other in \<open>auto simp: isTarget_def\<close>)
    ultimately show ?thesis using assms(1) by (simp add: lookupWorkout_def)
  next
    case (AddExerciseReq x y i)
    with assms(3) Some obtain f where "e' = (mapTarget u' wid' f e)\<lparr>nextRowId := nextRowId e + 1\<rparr>"
      and "\<And>x. wr_id (f x) = wr_id x" and "\<And>x. wr_owner (f x) = wr_owner x"
      by (auto simp: handle_def srvAddExercise_def targetOf_def Let_def split: sum.splits if_splits)
    with other assms(1) show ?thesis by (simp add: lookup_mapTarget_other lookup_nextRowId)
  next
    case (RemoveExerciseReq x y)
    with assms(3) Some obtain f where "e' = mapTarget u' wid' f e"
      and "\<And>x. wr_id (f x) = wr_id x" and "\<And>x. wr_owner (f x) = wr_owner x"
      by (auto simp: handle_def srvRemoveExercise_def targetOf_def split: sum.splits if_splits)
    with other assms(1) show ?thesis by (simp add: lookup_mapTarget_other lookup_nextRowId)
  next
    case (UpdateExerciseNotesReq x y t)
    with assms(3) Some obtain f where "e' = mapTarget u' wid' f e"
      and "\<And>x. wr_id (f x) = wr_id x" and "\<And>x. wr_owner (f x) = wr_owner x"
      by (auto simp: handle_def srvUpdateExerciseNotes_def mapExercise_def targetOf_def
          split: sum.splits option.splits)
    with other assms(1) show ?thesis by (simp add: lookup_mapTarget_other lookup_nextRowId)
  next
    case (UpdateWorkoutNotesReq x t)
    with assms(3) Some obtain f where "e' = mapTarget u' wid' f e"
      and "\<And>x. wr_id (f x) = wr_id x" and "\<And>x. wr_owner (f x) = wr_owner x"
      by (auto simp: handle_def srvUpdateWorkoutNotes_def targetOf_def split: sum.splits)
    with other assms(1) show ?thesis by (simp add: lookup_mapTarget_other lookup_nextRowId)
  next
    case (AddSetReq x y d)
    with assms(3) Some obtain f where "e' = (mapTarget u' wid' f e)\<lparr>nextRowId := nextRowId e + 1\<rparr>"
      and "\<And>x. wr_id (f x) = wr_id x" and "\<And>x. wr_owner (f x) = wr_owner x"
      by (auto simp: handle_def srvAddSet_def mapExercise_def targetOf_def split: sum.splits if_splits)
    with other assms(1) show ?thesis by (simp add: lookup_mapTarget_other lookup_nextRowId)
  next
    case (UpdateSetReq x y s d)
    with assms(3) Some obtain f where "e' = mapTarget u' wid' f e"
      and "\<And>x. wr_id (f x) = wr_id x" and "\<And>x. wr_owner (f x) = wr_owner x"
      by (auto simp: handle_def srvUpdateSet_def mapExercise_def targetOf_def
          split: sum.splits option.splits)
    with other assms(1) show ?thesis by (simp add: lookup_mapTarget_other lookup_nextRowId)
  next
    case (DeleteSetReq x y s)
    with assms(3) Some obtain f where "e' = mapTarget u' wid' f e"
      and "\<And>x. wr_id (f x) = wr_id x" and "\<And>x. wr_owner (f x) = wr_owner x"
      by (auto simp: handle_def srvDeleteSet_def mapExercise_def targetOf_def
          split: sum.splits option.splits)
    with other assms(1) show ?thesis by (simp add: lookup_mapTarget_other lookup_nextRowId)
  qed
qed

lemma exec_keeps_completed:
  assumes "lookupWorkout u wid e = Some w" and "wr_completed_at w \<noteq> None"
  shows "lookupWorkout u wid (exec e x) = Some w"
proof (cases "handle (fst x) (fst (snd x)) (snd (snd x)) e")
  case (Inl f)
  with assms show ?thesis by (simp add: exec_def)
next
  case (Inr p)
  then have "handle (fst x) (fst (snd x)) (snd (snd x)) e = Inr (fst p, snd p)" by simp
  with assms have "lookupWorkout u wid (fst p) = Some w"
    by (rule handle_keeps_completed)
  with Inr show ?thesis by (simp add: exec_def)
qed

lemma run_keeps_completed:
  assumes "lookupWorkout u wid e = Some w" and "wr_completed_at w \<noteq> None"
  shows "lookupWorkout u wid (run e xs) = Some w"
  using assms
proof (induction xs arbitrary: e)
  case Nil
  then show ?case by (simp add: run_def)
next
  case (Cons x xs)
  from Cons.prems have "lookupWorkout u wid (exec e x) = Some w"
    by (rule exec_keeps_completed)
  then have "lookupWorkout u wid (run (exec e x) xs) = Some w"
    using Cons.prems(2) by (rule Cons.IH)
  then show ?case by (simp add: run_def)
qed

text \<open>
  C2. For a workout whose \<open>completed_at\<close> is set, \<open>CompleteWorkout\<close> fails with
  \<open>CONFLICT\<close> and the store, hence the stored \<open>completed_at\<close>, is unchanged. After a
  successful \<open>CompleteWorkout\<close> the workout carries the completion time, and in every
  store reached afterwards by any requests it is the same row still, and every request
  addressed to it (adding or removing an exercise, adding, updating or deleting a set,
  updating notes, completing, cancelling) fails with \<open>CONFLICT\<close> and changes nothing.
  On the client, a rejected \<open>completeWorkout\<close> leaves the cached workout as it was and
  rethrows the rejection; an accepted one empties the cache, so that the cache
  operations send no further request for that workout.
\<close>

theorem complete_is_terminal:
  "(lookupWorkout u wid e = Some w \<and> wr_completed_at w \<noteq> None \<longrightarrow>
      handle u now (CompleteWorkoutReq wid) e = Inl CONFLICT \<and>
      exec e (u, now, CompleteWorkoutReq wid) = e) \<and>
   (handle u now (CompleteWorkoutReq wid) e = Inr (e1, r) \<longrightarrow>
      (\<exists>w1. lookupWorkout u wid e1 = Some w1 \<and> wr_completed_at w1 = Some now \<and>
         (\<forall>xs. lookupWorkout u wid (run e1 xs) = Some w1 \<and>
            (\<forall>rq later. targetOf rq = Some wid \<longrightarrow>
               handle u later rq (run e1 xs) = Inl CONFLICT \<and>
               exec (run e1 xs) (u, later, rq) = run e1 xs)))) \<and>
   (activeWorkout c = Some aw \<and> svc_completeWorkout svc (w_id aw) = Inl rejection \<longrightarrow>
      activeWorkout (after (completeWorkout svc c)) = Some aw \<and>
      thrown (completeWorkout svc c) = Some rejection) \<and>
   (activeWorkout c = Some aw \<and> svc_completeWorkout svc (w_id aw) = Inr answer \<longrightarrow>
      activeWorkout (after (completeWorkout svc c)) = None)"
proof (intro conjI impI)
  assume "activeWorkout c = Some aw \<and> svc_completeWorkout svc (w_id aw) = Inl rejection"
  then show "activeWorkout (after (completeWorkout svc c)) = Some aw"
    and "thrown (completeWorkout svc c) = Some rejection"
    by (simp_all add: completeWorkout_def handleError_def)
next
  assume "activeWorkout c = Some aw \<and> svc_completeWorkout svc (w_id aw) = Inr answer"
  then show "activeWorkout (after (completeWorkout svc c)) = None"
    by (simp add: completeWorkout_def setActiveWorkout_def)
next
  assume a: "lookupWorkout u wid e = Some w \<and> wr_completed_at w \<noteq> None"
  then show "handle u now (CompleteWorkoutReq wid) e = Inl CONFLICT"
    by (auto intro: completed_rejects simp: targetOf_def)
  then show "exec e (u, now, CompleteWorkoutReq wid) = e"
    by (simp add: exec_def)
next
  assume "handle u now (CompleteWorkoutReq wid) e = Inr (e1, r)"
  then have "srvCompleteWorkout u now wid e = Inr (e1, r)"
    by (simp add: handle_def)
  then obtain w1 where w1: "lookupWorkout u wid e1 = Some w1" "wr_completed_at w1 = Some now"
    using complete_marks by blast
  have "\<forall>xs. lookupWorkout u wid (run e1 xs) = Some w1 \<and>
            (\<forall>rq later. targetOf rq = Some wid \<longrightarrow>
               handle u later rq (run e1 xs) = Inl CONFLICT \<and>
               exec (run e1 xs) (u, later, rq) = run e1 xs)"
  proof (intro allI conjI impI)
    fix xs rq later
    show k: "lookupWorkout u wid (run e1 xs) = Some w1"
      using w1 by (auto intro: run_keeps_completed)
    assume t: "targetOf rq = Some wid"
    from k w1(2) t show c: "handle u later rq (run e1 xs) = Inl CONFLICT"
      by (auto intro: completed_rejects)
    then show "exec (run e1 xs) (u, later, rq) = run e1 xs"
      by (simp add: exec_def)
  qed
  with w1 show "\<exists>w1. lookupWorkout u wid e1 = Some w1 \<and> wr_completed_at w1 = Some now \<and>
         (\<forall>xs. lookupWorkout u wid (run e1 xs) = Some w1 \<and>
            (\<forall>rq later. targetOf rq = Some wid \<longrightarrow>
               handle u later rq (run e1 xs) = Inl CONFLICT \<and>
               exec (run e1 xs) (u, later, rq) = run e1 xs))"
    by blast
qed

text \<open>Completing workout 1 succeeds once; completing it again, adding an exercise,
  adding a set and cancelling it are then refused.\<close>

theorem complete_is_terminal_witness:
  "handle 1 ''2025-01-02T11:00:00'' (CompleteWorkoutReq 1) gymStarted =
     Inr (gymDone, WorkoutReply doneRow) \<and>
   lookupWorkout 1 1 gymDone = Some doneRow \<and>
   wr_completed_at doneRow = Some ''2025-01-02T11:00:00'' \<and>
   handle 1 ''2025-01-02T12:00:00'' (CompleteWorkoutReq 1) gymDone = Inl CONFLICT \<and>
   exec gymDone (1, ''2025-01-02T12:00:00'', CompleteWorkoutReq 1) = gymDone \<and>
   handle 1 ''2025-01-02T12:00:00'' (AddExerciseReq 1 5 1) gymDone = Inl CONFLICT \<and>
   handle 1 ''2025-01-02T12:00:00'' (AddSetReq 1 7 firstSet) gymDone = Inl CONFLICT \<and>
   handle 1 ''2025-01-02T12:00:00'' (CancelWorkoutReq 1) gymDone = Inl CONFLICT \<and>
   activeWorkout (after (completeWorkout downService (cached pushDay))) = Some pushDay \<and>
   thrown (completeWorkout downService (cached pushDay)) = Some conflict \<and>
   activeWorkout (after (completeWorkout okService (cached pushDay))) = None"
proof -
  have s: "gymStarted =
      \<lparr>workouts = [doneRow\<lparr>wr_completed_at := None\<rparr>], templates = [pushTemplate],
       catalog = [benchPress, retiredPlank], nextRowId = 2\<rparr>"
    by (simp add: gymStarted_def gym_def emptyEngine_def exec_def handle_def
        srvStartWorkout_def activeWorkoutsOf_def doneRow_def Let_def)
  have d: "handle 1 ''2025-01-02T11:00:00'' (CompleteWorkoutReq 1) gymStarted =
      Inr (gymDone, WorkoutReply doneRow)"
    by (simp add: gymDone_def s exec_def handle_def srvCompleteWorkout_def mutable_def
        lookupWorkout_def isTarget_def mapTarget_def doneRow_def)
  have g: "gymDone =
      \<lparr>workouts = [doneRow], templates = [pushTemplate],
       catalog = [benchPress, retiredPlank], nextRowId = 2\<rparr>"
    by (simp add: gymDone_def s exec_def handle_def srvCompleteWorkout_def mutable_def
        lookupWorkout_def isTarget_def mapTarget_def doneRow_def)
  have l: "lookupWorkout 1 1 gymDone = Some doneRow \<and>
      wr_completed_at doneRow = Some ''2025-01-02T11:00:00''"
    by (simp add: g lookupWorkout_def isTarget_def doneRow_def)
  have r: "run gymDone [] = gymDone"
    by (simp add: run_def)
  have t: "handle 1 later rq (run gymDone []) = Inl CONFLICT" if "targetOf rq = Some 1" for rq later
    using that d
      complete_is_terminal [of 1 1 gymStarted doneRow "''2025-01-02T11:00:00''" gymDone
        "WorkoutReply doneRow"]
    by blast
  have k: "activeWorkout (cached pushDay) = Some pushDay \<and>
      svc_completeWorkout downService (w_id pushDay) = Inl conflict"
    by (simp add: cached_def downService_def)
  have k': "activeWorkout (cached pushDay) = Some pushDay \<and>
      svc_completeWorkout okService (w_id pushDay) =
        Inr (blankWorkout\<lparr>completed_at := Some ''2025-01-02T11:00:00''\<rparr>)"
    by (simp add: cached_def okService_def)
  have q: "activeWorkout (after (completeWorkout downService (cached pushDay))) = Some pushDay \<and>
      thrown (completeWorkout downService (cached pushDay)) = Some conflict"
    using k
      complete_is_terminal [where c = "cached pushDay" and aw = pushDay and svc = downService
        and rejection = conflict]
    by blast
  have q': "activeWorkout (after (completeWorkout okService (cached pushDay))) = None"
    using k'
      complete_is_terminal [where c = "cached pushDay" and aw = pushDay and svc = okService
        and answer = "blankWorkout\<lparr>completed_at := Some ''2025-01-02T11:00:00''\<rparr>"]
    by blast
  have c: "handle 1 ''2025-01-02T12:00:00'' (CompleteWorkoutReq 1) gymDone = Inl CONFLICT \<and>
      exec gymDone (1, ''2025-01-02T12:00:00'', CompleteWorkoutReq 1) = gymDone"
    using l complete_is_terminal [of 1 1 gymDone doneRow "''2025-01-02T12:00:00''" gymDone NoContent]
    by simp
  show ?thesis
    using d l c q q' t [of "AddExerciseReq 1 5 1"] t [of "AddSetReq 1 7 firstSet"]
      t [of "CancelWorkoutReq 1"]
    by (simp add: targetOf_def r)
qed

lemma copyEntries_length: "length (copyEntries k ts) = length ts"
  by (induction ts arbitrary: k) auto

lemma copyEntries_order: "map er_order_index (copyEntries k ts) = map tn_order_index ts"
  by (induction ts arbitrary: k) auto

lemma copyEntries_exercise: "map er_exercise_id (copyEntries k ts) = map tn_exercise_id ts"
  by (induction ts arbitrary: k) auto

lemma copyEntries_no_sets: "list_all (\<lambda>r. er_sets r = []) (copyEntries k ts)"
  by (induction ts arbitrary: k) auto

text \<open>
  C3. Starting a workout from a template with N entries, for a user with no active
  workout, succeeds and stores one new workout with exactly N exercise rows; the rows
  carry, position by position, the \<open>order_index\<close> and the exercise of the template's
  entries, and every row has zero sets: no suggested value reaches a set. The client
  stores the workout the server returns as it is.
\<close>

theorem start_from_template_copies:
  assumes "activeWorkoutsOf u e = []"
    and "find (\<lambda>tp. tr_id tp = t) (templates e) = Some tp"
  shows "(\<exists>e' w. srvStartWorkout u now name (Some t) e = Inr (e', WorkoutReply w) \<and>
      workouts e' = workouts e @ [w] \<and>
      length (wr_exercises w) = length (tr_entries tp) \<and>
      map er_order_index (wr_exercises w) = map tn_order_index (tr_entries tp) \<and>
      map er_exercise_id (wr_exercises w) = map tn_exercise_id (tr_entries tp) \<and>
      list_all (\<lambda>r. er_sets r = []) (wr_exercises w)) \<and>
     (svc_createWorkoutFromTemplate svc t d = Inr workout \<longrightarrow>
        activeWorkout (after (startWorkoutFromTemplate svc t d c)) = Some workout)"
  using assms
  by (simp add: srvStartWorkout_def Let_def copyEntries_length copyEntries_order
      copyEntries_exercise copyEntries_no_sets startWorkoutFromTemplate_def setActiveWorkout_def)

text \<open>The template with entries at indices 1 and 4 gives two rows at indices 1 and 4,
  both without sets.\<close>

theorem start_from_template_copies_witness:
  "activeWorkoutsOf 1 gym = [] \<and>
   find (\<lambda>tp. tr_id tp = 9) (templates gym) = Some pushTemplate \<and>
   length (tr_entries pushTemplate) = 2 \<and>
   (\<exists>e' w. srvStartWorkout 1 ''2025-01-02T10:00:00'' None (Some 9) gym = Inr (e', WorkoutReply w) \<and>
      map er_order_index (wr_exercises w) = [1, 4] \<and>
      map er_sets (wr_exercises w) = [[], []]) \<and>
   activeWorkout (after (startWorkoutFromTemplate okService 9 None initialCtx)) = Some blankWorkout"
proof -
  have a: "activeWorkoutsOf 1 gym = []"
    by (simp add: activeWorkoutsOf_def gym_def emptyEngine_def)
  have f: "find (\<lambda>tp. tr_id tp = 9) (templates gym) = Some pushTemplate"
    by (simp add: gym_def emptyEngine_def pushTemplate_def)
  have n: "tr_entries pushTemplate =
      [\<lparr>tn_exercise_id = 5, tn_order_index = 1, tn_suggested_sets = Some 3,
        tn_suggested_reps = Some 5, tn_suggested_weight = Some 80,
        tn_suggested_duration = None\<rparr>,
       \<lparr>tn_exercise_id = 6, tn_order_index = 4, tn_suggested_sets = Some 2,
        tn_suggested_reps = None, tn_suggested_weight = None,
        tn_suggested_duration = Some 60\<rparr>]"
    by (simp add: pushTemplate_def)
  have k: "svc_createWorkoutFromTemplate okService 9 None = Inr blankWorkout"
    by (simp add: okService_def)
  show ?thesis
    using a f n k
      start_from_template_copies [OF a f, of "''2025-01-02T10:00:00''" None okService None
        blankWorkout initialCtx]
    by (simp add: srvStartWorkout_def Let_def gym_def emptyEngine_def)
qed

end
